theory Spec2Isabelle
  imports Complex_Main "HOL-Library.Word" "HOL-Library.Multiset"
begin

section \<open>Values and errors\<close>

text \<open>
  The exceptions that the two dataset classes of \<^verbatim>\<open>dataset.py\<close> can let escape, as values.
  \<open>KeyError\<close> carries the missing key.
\<close>

datatype error =
    KeyError string
  | TypeError
  | ValueError
  | OverflowError
  | AttributeError
  | IndexError
  | OSError
  | JSONDecodeError
  | RuntimeError
  | CvError

text \<open>
  What \<^verbatim>\<open>json.load\<close> returns: \<^verbatim>\<open>None\<close>, a bool, an int, a float, a str, a list or a dict.
  A dict is kept as its items in insertion order (the keys are distinct). The same type serves
  for the elements of a Python tuple such as the ROI.
\<close>

datatype pyfloat = Finite rat | Infinity bool | NaN

datatype json =
    JNull
  | JBool bool
  | JInt int
  | JFloat pyfloat
  | JStr string
  | JArr "json list"
  | JObj "(string \<times> json) list"

section \<open>Python operations on loaded values\<close>

text \<open>\<^verbatim>\<open>v[key]\<close> with a string key: only a dict can be subscripted so.\<close>

definition py_subscript :: "json \<Rightarrow> string \<Rightarrow> error + json" where
  "py_subscript v key =
     (case v of
        JObj kvs \<Rightarrow> (case map_of kvs key of None \<Rightarrow> Inl (KeyError key) | Some x \<Rightarrow> Inr x)
      | _ \<Rightarrow> Inl TypeError)"

text \<open>\<^verbatim>\<open>v.get(key, default)\<close>: a method of dicts; any other loaded value has no \<^verbatim>\<open>get\<close>.\<close>

definition py_get :: "json \<Rightarrow> string \<Rightarrow> json \<Rightarrow> error + json" where
  "py_get v key dflt =
     (case v of
        JObj kvs \<Rightarrow> (case map_of kvs key of None \<Rightarrow> Inr dflt | Some x \<Rightarrow> Inr x)
      | _ \<Rightarrow> Inl AttributeError)"

text \<open>
  Iteration, as \<^verbatim>\<open>for\<close>, \<^verbatim>\<open>tuple(...)\<close> and tuple unpacking do it: a list or tuple gives its
  elements, a str its characters, a dict its keys; nothing else is iterable.
\<close>

definition py_iter :: "json \<Rightarrow> error + json list" where
  "py_iter v =
     (case v of
        JArr xs \<Rightarrow> Inr xs
      | JStr s \<Rightarrow> Inr (map (\<lambda>c. JStr [c]) s)
      | JObj kvs \<Rightarrow> Inr (map (\<lambda>kv. JStr (fst kv)) kvs)
      | _ \<Rightarrow> Inl TypeError)"

text \<open>\<^verbatim>\<open>s, e = v\<close>: exactly two elements, else \<^verbatim>\<open>ValueError\<close>.\<close>

definition py_unpack2 :: "json \<Rightarrow> error + (json \<times> json)" where
  "py_unpack2 v =
     (case py_iter v of
        Inl err \<Rightarrow> Inl err
      | Inr [a, b] \<Rightarrow> Inr (a, b)
      | Inr _ \<Rightarrow> Inl ValueError)"

text \<open>\<^verbatim>\<open>x1, y1, x2, y2 = v\<close>.\<close>

definition py_unpack4 :: "json \<Rightarrow> error + (json \<times> json \<times> json \<times> json)" where
  "py_unpack4 v =
     (case py_iter v of
        Inl err \<Rightarrow> Inl err
      | Inr [a, b, c, d] \<Rightarrow> Inr (a, b, c, d)
      | Inr _ \<Rightarrow> Inl ValueError)"

text \<open>
  \<^verbatim>\<open>int(v)\<close> on a loaded value: an int is itself, a bool is 0 or 1, a finite float is
  truncated towards zero; \<^verbatim>\<open>None\<close>, lists and dicts are refused. What \<^verbatim>\<open>int\<close> answers on a
  str is the interpreter's own (its white space, its digits of every script, its limit on
  the number of digits): it is the parameter \<open>int_str\<close>, where \<open>None\<close> stands for the
  \<^verbatim>\<open>ValueError\<close>.
\<close>

definition py_int :: "(string \<Rightarrow> int option) \<Rightarrow> json \<Rightarrow> error + int" where
  "py_int int_str v =
     (case v of
        JInt n \<Rightarrow> Inr n
      | JBool b \<Rightarrow> Inr (if b then 1 else 0)
      | JFloat (Finite q) \<Rightarrow> Inr (if 0 \<le> q then \<lfloor>q\<rfloor> else \<lceil>q\<rceil>)
      | JFloat (Infinity _) \<Rightarrow> Inl OverflowError
      | JFloat NaN \<Rightarrow> Inl ValueError
      | JStr s \<Rightarrow> (case int_str s of None \<Rightarrow> Inl ValueError | Some n \<Rightarrow> Inr n)
      | _ \<Rightarrow> Inl TypeError)"

text \<open>\<^verbatim>\<open>xs[idx]\<close> on a list: a negative index counts from the end.\<close>

definition py_index :: "'a list \<Rightarrow> int \<Rightarrow> error + 'a" where
  "py_index xs idx =
     (let n = int (length xs); j = (if idx < 0 then idx + n else idx)
      in if 0 \<le> j \<and> j < n then Inr (xs ! nat j) else Inl IndexError)"

text \<open>
  A bound of a slice \<^verbatim>\<open>a:b\<close>: \<^verbatim>\<open>None\<close> leaves the side open, an int (or bool) is an index,
  anything else is a \<^verbatim>\<open>TypeError\<close>.
\<close>

definition py_slice_bound :: "json \<Rightarrow> error + int option" where
  "py_slice_bound v =
     (case v of
        JNull \<Rightarrow> Inr None
      | JInt n \<Rightarrow> Inr (Some n)
      | JBool b \<Rightarrow> Inr (Some (if b then 1 else 0))
      | _ \<Rightarrow> Inl TypeError)"

text \<open>\<^verbatim>\<open>xs[a:b]\<close>: negative bounds count from the end, and both are clipped to the length.\<close>

definition clip_bound :: "int \<Rightarrow> int option \<Rightarrow> int \<Rightarrow> int" where
  "clip_bound n b dflt =
     (case b of
        None \<Rightarrow> dflt
      | Some i \<Rightarrow> if i < 0 then max (i + n) 0 else min i n)"

definition py_slice :: "'a list \<Rightarrow> int option \<Rightarrow> int option \<Rightarrow> 'a list" where
  "py_slice xs a b =
     (let n = int (length xs); lo = clip_bound n a 0; hi = clip_bound n b n
      in take (nat (hi - lo)) (drop (nat lo) xs))"

section \<open>Paths\<close>

text \<open>
  The functions of \<^verbatim>\<open>os.path\<close> that the constructors call, in their POSIX form.
  \<open>rfind c p\<close> is \<^verbatim>\<open>p.rfind(c)\<close>: the last position of \<open>c\<close>, or -1.
\<close>

definition rfind :: "char \<Rightarrow> string \<Rightarrow> int" where
  "rfind c p =
     (if c \<in> set p then int (length p) - 1 - int (length (takeWhile (\<lambda>d. d \<noteq> c) (rev p)))
      else - 1)"

definition path_join :: "string \<Rightarrow> string \<Rightarrow> string" where
  "path_join a b =
     (if b \<noteq> [] \<and> hd b = CHR ''/'' then b
      else if a = [] \<or> last a = CHR ''/'' then a @ b
      else a @ CHR ''/'' # b)"

definition path_basename :: "string \<Rightarrow> string" where
  "path_basename p = drop (nat (rfind CHR ''/'' p + 1)) p"

definition path_dirname :: "string \<Rightarrow> string" where
  "path_dirname p =
     (let h = take (nat (rfind CHR ''/'' p + 1)) p
      in if h \<noteq> [] \<and> h \<noteq> replicate (length h) CHR ''/''
         then rev (dropWhile (\<lambda>c. c = CHR ''/'') (rev h))
         else h)"

text \<open>\<^verbatim>\<open>os.path.splitext(p)[0]\<close>: the extension starts at the last dot of the last
  component, unless only dots precede it there.\<close>

definition path_splitext_root :: "string \<Rightarrow> string" where
  "path_splitext_root p =
     (let sepIndex = rfind CHR ''/'' p; dotIndex = rfind CHR ''.'' p
      in if dotIndex > sepIndex
            \<and> list_ex (\<lambda>c. c \<noteq> CHR ''.'')
                (take (nat (dotIndex - (sepIndex + 1))) (drop (nat (sepIndex + 1)) p))
         then take (nat dotIndex) p
         else p)"

section \<open>Files, videos and the decoder\<close>

text \<open>
  A decoded frame is a height by width array of BGR pixels, each channel one byte.
  A video has the frame count its container reports
  (\<^verbatim>\<open>int(cap.get(cv2.CAP_PROP_FRAME_COUNT))\<close>) and the frames the decoder can in fact read;
  the two need not agree.
\<close>

type_synonym pixel = "8 word \<times> 8 word \<times> 8 word"
type_synonym image = "pixel list list"
type_synonym tensor3 = "real list list list"
type_synonym tensor4 = "real list list list list"

record video =
  frame_count_prop :: int
  video_frames :: "image list"

text \<open>
  What the program finds outside itself: the result of \<^verbatim>\<open>glob.glob\<close> on a pattern, of
  opening a path and \<^verbatim>\<open>json.load\<close>-ing it, the videos by path (\<open>None\<close>: cannot be
  opened), what \<^verbatim>\<open>cv2.resize(crop, (256, 256))\<close> computes on a non-empty image, and what
  \<^verbatim>\<open>int\<close> answers on a str.
\<close>

record world =
  glob_glob :: "string \<Rightarrow> string list"
  json_load :: "string \<Rightarrow> error + json"
  videos :: "string \<Rightarrow> video option"
  cv_resize :: "image \<Rightarrow> image"
  str_to_int :: "string \<Rightarrow> int option"

text \<open>The frame count as the constructors query it (lines 49-51, 132-134); a capture
  that could not be opened reports 0.\<close>

definition frame_count_of :: "world \<Rightarrow> string \<Rightarrow> int" where
  "frame_count_of w vpath = (case videos w vpath of None \<Rightarrow> 0 | Some v \<Rightarrow> frame_count_prop v)"

text \<open>A \<^verbatim>\<open>cv2.VideoCapture\<close> handle: the frames it reads from, its position, and whether
  it is open.\<close>

record capture =
  cap_frames :: "image list"
  cap_pos :: int
  cap_opened :: bool

definition VideoCapture :: "world \<Rightarrow> string \<Rightarrow> capture" where
  "VideoCapture w vpath =
     (case videos w vpath of
        None \<Rightarrow> \<lparr>cap_frames = [], cap_pos = 0, cap_opened = False\<rparr>
      | Some v \<Rightarrow> \<lparr>cap_frames = video_frames v, cap_pos = 0, cap_opened = True\<rparr>)"

text \<open>\<^verbatim>\<open>cap.set(cv2.CAP_PROP_POS_FRAMES, start)\<close>.\<close>

definition cap_set_pos :: "capture \<Rightarrow> int \<Rightarrow> capture" where
  "cap_set_pos cap start = (if cap_opened cap then cap\<lparr>cap_pos := start\<rparr> else cap)"

text \<open>\<^verbatim>\<open>cap.read()\<close>: \<open>None\<close> stands for \<^verbatim>\<open>ret == False\<close>.\<close>

definition cap_read :: "capture \<Rightarrow> image option \<times> capture" where
  "cap_read cap =
     (if cap_opened cap \<and> 0 \<le> cap_pos cap \<and> cap_pos cap < int (length (cap_frames cap))
      then (Some (cap_frames cap ! nat (cap_pos cap)), cap\<lparr>cap_pos := cap_pos cap + 1\<rparr>)
      else (None, cap))"

definition cap_release :: "capture \<Rightarrow> capture" where
  "cap_release cap = cap\<lparr>cap_opened := False\<rparr>"

section \<open>Sample Indexer\<close>

text \<open>\<^verbatim>\<open>range(lo, hi)\<close>: the integers from \<open>lo\<close> up to \<open>hi - 1\<close>, none when \<open>hi \<le> lo\<close>.\<close>

definition py_range :: "int \<Rightarrow> int \<Rightarrow> int list" where
  "py_range lo hi = [lo..hi - 1]"

text \<open>
  The inner loop of both constructors (lines 56-60 and 146-150), with the variable
  \<^verbatim>\<open>label\<close> threaded through:
  \<^verbatim>\<open>
  label = 0.0
  for s, e in anomaly_frames:
      if not (end < s or start > e):
          label = 1.0
          break
  \<close>
\<close>

fun label_loop :: "int \<Rightarrow> int \<Rightarrow> real \<Rightarrow> (int \<times> int) list \<Rightarrow> real" where
  "label_loop start endw label [] = label"
| "label_loop start endw label ((s, e) # rest) =
     (if \<not> (endw < s \<or> start > e) then 1 else label_loop start endw label rest)"

type_synonym multi_sample = "string \<times> int \<times> real \<times> json list"
type_synonym single_sample = "string \<times> int \<times> real"

text \<open>
  The sliding-window loop of \<^verbatim>\<open>MultiVideoAnomalyDataset.__init__\<close> (lines 54-62); the last
  argument is \<^verbatim>\<open>self.samples\<close>, to which each window is appended.
\<close>

fun multi_windows ::
  "int \<Rightarrow> (int \<times> int) list \<Rightarrow> string \<Rightarrow> json list \<Rightarrow> int list \<Rightarrow> multi_sample list
    \<Rightarrow> multi_sample list" where
  "multi_windows seq_len anomaly_frames vpath roi [] samples = samples"
| "multi_windows seq_len anomaly_frames vpath roi (start # starts) samples =
     (let endw = start + seq_len - 1;
          label = label_loop start endw 0 anomaly_frames
      in multi_windows seq_len anomaly_frames vpath roi starts
           (samples @ [(vpath, start, label, roi)]))"

text \<open>The same loop in \<^verbatim>\<open>SingleVideoAnomalyDataset.__init__\<close> (lines 144-151).\<close>

fun single_windows ::
  "int \<Rightarrow> (int \<times> int) list \<Rightarrow> string \<Rightarrow> int list \<Rightarrow> single_sample list
    \<Rightarrow> single_sample list" where
  "single_windows seq_len anomaly_frames video_path [] samples = samples"
| "single_windows seq_len anomaly_frames video_path (start # starts) samples =
     (let endw = start + seq_len - 1;
          label = label_loop start endw 0 anomaly_frames
      in single_windows seq_len anomaly_frames video_path starts
           (samples @ [(video_path, start, label)]))"

text \<open>The components of a stored sample.\<close>

definition multi_start :: "multi_sample \<Rightarrow> int" where
  "multi_start smp = fst (snd smp)"

definition multi_roi :: "multi_sample \<Rightarrow> json list" where
  "multi_roi smp = snd (snd (snd smp))"

definition single_start :: "single_sample \<Rightarrow> int" where
  "single_start smp = fst (snd smp)"

section \<open>Annotation Loader\<close>

text \<open>
  The event ranges of a record, as both constructors build them (lines 39-42 and 137-141):
  each element of \<^verbatim>\<open>event_frame\<close> is unpacked into two values, and \<^verbatim>\<open>int\<close> is applied to
  both.
\<close>

fun convert_ranges :: "(string \<Rightarrow> int option) \<Rightarrow> json list \<Rightarrow> error + (int \<times> int) list" where
  "convert_ranges int_str [] = Inr []"
| "convert_ranges int_str (x # xs) =
     (case py_unpack2 x of
        Inl err \<Rightarrow> Inl err
      | Inr (start_idx, end_idx) \<Rightarrow>
          (case py_int int_str start_idx of
             Inl err \<Rightarrow> Inl err
           | Inr s \<Rightarrow>
               (case py_int int_str end_idx of
                  Inl err \<Rightarrow> Inl err
                | Inr e \<Rightarrow>
                    (case convert_ranges int_str xs of
                       Inl err \<Rightarrow> Inl err
                     | Inr rest \<Rightarrow> Inr ((s, e) # rest)))))"

text \<open>\<^verbatim>\<open>item['annotations']['event_frame']\<close>, iterated and converted.\<close>

definition event_frames :: "(string \<Rightarrow> int option) \<Rightarrow> json \<Rightarrow> error + (int \<times> int) list" where
  "event_frames int_str item =
     (case py_subscript item ''annotations'' of
        Inl err \<Rightarrow> Inl err
      | Inr annotations \<Rightarrow>
          (case py_subscript annotations ''event_frame'' of
             Inl err \<Rightarrow> Inl err
           | Inr ef \<Rightarrow>
               (case py_iter ef of
                  Inl err \<Rightarrow> Inl err
                | Inr elems \<Rightarrow> convert_ranges int_str elems)))"

text \<open>Line 36: \<^verbatim>\<open>roi = tuple(item['annotations'].get('roi', self.default_roi))\<close>.\<close>

definition record_roi :: "json \<Rightarrow> json \<Rightarrow> error + json list" where
  "record_roi item default_roi =
     (case py_subscript item ''annotations'' of
        Inl err \<Rightarrow> Inl err
      | Inr annotations \<Rightarrow>
          (case py_get annotations ''roi'' default_roi of
             Inl err \<Rightarrow> Inl err
           | Inr r \<Rightarrow> py_iter r))"

text \<open>The video that belongs to an annotation file (lines 45-46 and 128-129).\<close>

definition video_path_in :: "string \<Rightarrow> string \<Rightarrow> string" where
  "video_path_in video_dir ann_path =
     path_join video_dir (path_splitext_root (path_basename ann_path) @ ''.mp4'')"

section \<open>The multi-video dataset\<close>

record multi_dataset =
  m_seq_len :: int
  m_default_roi :: json
  m_transform :: "(tensor4 \<Rightarrow> error + tensor4) option"
  m_samples :: "multi_sample list"

text \<open>
  The body of the loop over \<^verbatim>\<open>json_paths\<close> (lines 30-62) for one annotation file: what it
  appends to \<^verbatim>\<open>self.samples\<close>, or the exception that leaves the constructor.
\<close>

definition multi_file ::
  "world \<Rightarrow> string \<Rightarrow> int \<Rightarrow> json \<Rightarrow> string \<Rightarrow> multi_sample list \<Rightarrow> error + multi_sample list" where
  "multi_file w video_dir seq_len default_roi ann_path samples =
     (case json_load w ann_path of
        Inl err \<Rightarrow> Inl err
      | Inr item \<Rightarrow>
          (case record_roi item default_roi of
             Inl err \<Rightarrow> Inl err
           | Inr roi \<Rightarrow>
               (case event_frames (str_to_int w) item of
                  Inl err \<Rightarrow> Inl err
                | Inr anomaly_frames \<Rightarrow>
                    (let vpath = video_path_in video_dir ann_path;
                         nframes = frame_count_of w vpath
                     in Inr (multi_windows seq_len anomaly_frames vpath roi
                               (py_range 0 (nframes - seq_len + 1)) samples)))))"

fun multi_files ::
  "world \<Rightarrow> string \<Rightarrow> int \<Rightarrow> json \<Rightarrow> string list \<Rightarrow> multi_sample list \<Rightarrow> error + multi_sample list" where
  "multi_files w video_dir seq_len default_roi [] samples = Inr samples"
| "multi_files w video_dir seq_len default_roi (ann_path # rest) samples =
     (case multi_file w video_dir seq_len default_roi ann_path samples of
        Inl err \<Rightarrow> Inl err
      | Inr samples' \<Rightarrow> multi_files w video_dir seq_len default_roi rest samples')"

text \<open>\<^verbatim>\<open>MultiVideoAnomalyDataset.__init__\<close>.\<close>

definition multi_json_paths :: "world \<Rightarrow> string \<Rightarrow> string list" where
  "multi_json_paths w label_dir = glob_glob w (path_join label_dir ''*.json'')"

definition multi_video_dir :: "string \<Rightarrow> string" where
  "multi_video_dir label_dir = path_join (path_dirname label_dir) ''video''"

definition multi_init ::
  "world \<Rightarrow> string \<Rightarrow> int \<Rightarrow> json \<Rightarrow> (tensor4 \<Rightarrow> error + tensor4) option \<Rightarrow> error + multi_dataset" where
  "multi_init w label_dir seq_len default_roi transform =
     (let json_paths = multi_json_paths w label_dir;
          video_dir = multi_video_dir label_dir
      in case multi_files w video_dir seq_len default_roi json_paths [] of
           Inl err \<Rightarrow> Inl err
         | Inr samples \<Rightarrow>
             Inr \<lparr>m_seq_len = seq_len, m_default_roi = default_roi,
                  m_transform = transform, m_samples = samples\<rparr>)"

text \<open>\<^verbatim>\<open>MultiVideoAnomalyDataset.__len__\<close>.\<close>

definition multi_len :: "multi_dataset \<Rightarrow> nat" where
  "multi_len ds = length (m_samples ds)"

section \<open>The single-video dataset\<close>

record single_dataset =
  s_seq_len :: int
  s_fps :: int
  s_transform :: "(tensor4 \<Rightarrow> error + tensor4) option"
  s_roi :: json
  s_samples :: "single_sample list"

definition single_video_path :: "string \<Rightarrow> string" where
  "single_video_path ann_path =
     video_path_in (path_join (path_dirname (path_dirname ann_path)) ''video'') ann_path"

text \<open>\<^verbatim>\<open>SingleVideoAnomalyDataset.__init__\<close>: the annotation is loaded first, the frame count
  queried next, then the event ranges are read and the windows generated.\<close>

definition single_init ::
  "world \<Rightarrow> string \<Rightarrow> int \<Rightarrow> int \<Rightarrow> json \<Rightarrow> (tensor4 \<Rightarrow> error + tensor4) option
    \<Rightarrow> error + single_dataset" where
  "single_init w ann_path seq_len fps roi transform =
     (case json_load w ann_path of
        Inl err \<Rightarrow> Inl err
      | Inr item \<Rightarrow>
          (let video_path = single_video_path ann_path;
               frame_count = frame_count_of w video_path
           in case event_frames (str_to_int w) item of
                Inl err \<Rightarrow> Inl err
              | Inr anomaly_frames \<Rightarrow>
                  Inr \<lparr>s_seq_len = seq_len, s_fps = fps, s_transform = transform, s_roi = roi,
                       s_samples = single_windows seq_len anomaly_frames video_path
                                     (py_range 0 (frame_count - seq_len + 1)) []\<rparr>))"

definition single_len :: "single_dataset \<Rightarrow> nat" where
  "single_len ds = length (s_samples ds)"

section \<open>Frame Sequence Extractor\<close>

text \<open>\<^verbatim>\<open>img[y1:y2, x1:x2]\<close>: rows \<open>y1\<close> to \<open>y2\<close>, and of each the columns \<open>x1\<close> to \<open>x2\<close>.\<close>

definition crop_roi :: "image \<Rightarrow> json \<times> json \<times> json \<times> json \<Rightarrow> error + image" where
  "crop_roi img roi =
     (case roi of (x1, y1, x2, y2) \<Rightarrow>
        (case py_slice_bound y1 of Inl err \<Rightarrow> Inl err | Inr ya \<Rightarrow>
        (case py_slice_bound y2 of Inl err \<Rightarrow> Inl err | Inr yb \<Rightarrow>
        (case py_slice_bound x1 of Inl err \<Rightarrow> Inl err | Inr xa \<Rightarrow>
        (case py_slice_bound x2 of Inl err \<Rightarrow> Inl err | Inr xb \<Rightarrow>
           Inr (map (\<lambda>row. py_slice row xa xb) (py_slice img ya yb)))))))"

text \<open>\<^verbatim>\<open>cv2.resize(crop, (256, 256))\<close> refuses an image without rows or without columns.\<close>

definition image_empty :: "image \<Rightarrow> bool" where
  "image_empty img = (case img of [] \<Rightarrow> True | row # _ \<Rightarrow> row = [])"

definition resize256 :: "world \<Rightarrow> image \<Rightarrow> error + image" where
  "resize256 w crop = (if image_empty crop then Inl CvError else Inr (cv_resize w crop))"

text \<open>\<^verbatim>\<open>cv2.cvtColor(patch, cv2.COLOR_BGR2RGB)\<close>: the first and third channel change places.\<close>

definition cvtColor_BGR2RGB :: "image \<Rightarrow> image" where
  "cvtColor_BGR2RGB patch = map (map (\<lambda>(c0, c1, c2). (c2, c1, c0))) patch"

text \<open>
  \<^verbatim>\<open>torch.from_numpy(patch).permute(2, 0, 1).float().div(255.0)\<close>: one plane per channel, in the
  order of the channels, each byte divided by 255. The quotient is kept exact here; its
  rounding to single precision is not modelled.
\<close>

definition plane :: "(pixel \<Rightarrow> 8 word) \<Rightarrow> image \<Rightarrow> real list list" where
  "plane ch patch = map (map (\<lambda>px. real (unat (ch px)) / 255)) patch"

definition to_tensor :: "image \<Rightarrow> tensor3" where
  "to_tensor patch =
     [plane (\<lambda>(c0, c1, c2). c0) patch, plane (\<lambda>(c0, c1, c2). c1) patch,
      plane (\<lambda>(c0, c1, c2). c2) patch]"

text \<open>Lines 80-83 (168-173): what is done to one frame that was read.\<close>

definition process_frame :: "world \<Rightarrow> json \<times> json \<times> json \<times> json \<Rightarrow> image \<Rightarrow> error + tensor3" where
  "process_frame w roi img =
     (case crop_roi img roi of
        Inl err \<Rightarrow> Inl err
      | Inr crop \<Rightarrow>
          (case resize256 w crop of
             Inl err \<Rightarrow> Inl err
           | Inr patch \<Rightarrow> Inr (to_tensor (cvtColor_BGR2RGB patch))))"

text \<open>
  The read loop (lines 75-84 and 163-174), \<open>n\<close> iterations left: a failed read leaves the
  loop, an exception in the processing of a frame leaves the function with the capture as
  it is.
\<close>

fun read_frames ::
  "world \<Rightarrow> json \<times> json \<times> json \<times> json \<Rightarrow> nat \<Rightarrow> capture \<Rightarrow> tensor3 list
    \<Rightarrow> (error + tensor3 list) \<times> capture" where
  "read_frames w roi 0 cap frames = (Inr frames, cap)"
| "read_frames w roi (Suc n) cap frames =
     (case cap_read cap of
        (None, cap') \<Rightarrow> (Inr frames, cap')
      | (Some img, cap') \<Rightarrow>
          (case process_frame w roi img of
             Inl err \<Rightarrow> (Inl err, cap')
           | Inr t \<Rightarrow> read_frames w roi n cap' (frames @ [t])))"

text \<open>\<^verbatim>\<open>torch.stack(frames, dim=0)\<close> wants at least one tensor, and all of one shape.\<close>

definition tensor_shape :: "tensor3 \<Rightarrow> nat list list" where
  "tensor_shape t = map (map length) t"

definition torch_stack :: "tensor3 list \<Rightarrow> error + tensor4" where
  "torch_stack frames =
     (case frames of
        [] \<Rightarrow> Inl RuntimeError
      | t # ts \<Rightarrow>
          if list_all (\<lambda>u. tensor_shape u = tensor_shape t) ts then Inr frames
          else Inl RuntimeError)"

text \<open>Lines 88-90 (178-180): the transform, if there is one, and the pairing with the label.\<close>

definition apply_transform ::
  "(tensor4 \<Rightarrow> error + tensor4) option \<Rightarrow> tensor4 \<Rightarrow> real \<Rightarrow> error + (tensor4 \<times> real)" where
  "apply_transform transform seq label =
     (case transform of
        None \<Rightarrow> Inr (seq, label)
      | Some f \<Rightarrow> (case f seq of Inl err \<Rightarrow> Inl err | Inr seq' \<Rightarrow> Inr (seq', label)))"

text \<open>Lines 87-90 (177-180): stack, transform, return.\<close>

definition stack_and_return ::
  "(tensor4 \<Rightarrow> error + tensor4) option \<Rightarrow> tensor3 list \<Rightarrow> real \<Rightarrow> error + (tensor4 \<times> real)" where
  "stack_and_return transform frames label =
     (case torch_stack frames of
        Inl err \<Rightarrow> Inl err
      | Inr seq \<Rightarrow> apply_transform transform seq label)"

text \<open>
  From the read loop to the return (lines 74-90 and 161-180, the unpacking of the ROI
  apart), on a capture that is already positioned. The second component is the handle as
  the call leaves it: \<^verbatim>\<open>cap.release()\<close> stands after the loop, so an exception inside the
  loop passes it by, and one raised by the stacking or the transform comes after it.
\<close>

definition read_and_stack ::
  "world \<Rightarrow> json \<times> json \<times> json \<times> json \<Rightarrow> int \<Rightarrow> (tensor4 \<Rightarrow> error + tensor4) option \<Rightarrow> real
    \<Rightarrow> capture \<Rightarrow> (error + (tensor4 \<times> real)) \<times> capture option" where
  "read_and_stack w roi4 seq_len transform label cap =
     (case read_frames w roi4 (nat seq_len) cap [] of
        (Inl err, cap') \<Rightarrow> (Inl err, Some cap')
      | (Inr frames, cap') \<Rightarrow>
          (stack_and_return transform frames label, Some (cap_release cap')))"

text \<open>
  \<^verbatim>\<open>MultiVideoAnomalyDataset.__getitem__\<close>: the sample's ROI is unpacked before the capture is
  created (\<open>None\<close>: no handle was created).
\<close>

definition multi_getitem ::
  "world \<Rightarrow> multi_dataset \<Rightarrow> int \<Rightarrow> (error + (tensor4 \<times> real)) \<times> capture option" where
  "multi_getitem w ds idx =
     (case py_index (m_samples ds) idx of
        Inl err \<Rightarrow> (Inl err, None)
      | Inr (vpath, start, label, roi) \<Rightarrow>
          (case py_unpack4 (JArr roi) of
             Inl err \<Rightarrow> (Inl err, None)
           | Inr roi4 \<Rightarrow>
               read_and_stack w roi4 (m_seq_len ds) (m_transform ds) label
                 (cap_set_pos (VideoCapture w vpath) start)))"

text \<open>
  \<^verbatim>\<open>SingleVideoAnomalyDataset.__getitem__\<close>: here the capture is created before
  \<^verbatim>\<open>self.roi\<close> is unpacked.
\<close>

definition single_getitem ::
  "world \<Rightarrow> single_dataset \<Rightarrow> int \<Rightarrow> (error + (tensor4 \<times> real)) \<times> capture option" where
  "single_getitem w ds idx =
     (case py_index (s_samples ds) idx of
        Inl err \<Rightarrow> (Inl err, None)
      | Inr (video_path, start_idx, label) \<Rightarrow>
          (let cap = cap_set_pos (VideoCapture w video_path) start_idx
           in case py_unpack4 (s_roi ds) of
                Inl err \<Rightarrow> (Inl err, Some cap)
              | Inr roi4 \<Rightarrow>
                  read_and_stack w roi4 (s_seq_len ds) (s_transform ds) label cap))"

section \<open>Notions used to state the properties\<close>

text \<open>The number of windows of a video for the multi-video dataset:
  \<open>max (frame_count - seq_len + 1, 0)\<close>.\<close>

definition window_count :: "world \<Rightarrow> string \<Rightarrow> int \<Rightarrow> string \<Rightarrow> nat" where
  "window_count w video_dir seq_len ann_path =
     nat (max (frame_count_of w (video_path_in video_dir ann_path) - seq_len + 1) 0)"

text \<open>The frames the decoder can supply from frame \<open>start\<close> of a video on.\<close>

definition supplied :: "world \<Rightarrow> string \<Rightarrow> int \<Rightarrow> image list" where
  "supplied w vpath start =
     (case videos w vpath of
        None \<Rightarrow> []
      | Some v \<Rightarrow> if 0 \<le> start then drop (nat start) (video_frames v) else [])"

text \<open>The frames a positioned capture can still read.\<close>

definition readable :: "capture \<Rightarrow> image list" where
  "readable cap =
     (if cap_opened cap \<and> 0 \<le> cap_pos cap then drop (nat (cap_pos cap)) (cap_frames cap) else [])"

text \<open>What is assumed of \<^verbatim>\<open>cv2.resize(crop, (256, 256))\<close>: on an image that has rows and
  columns it returns 256 rows of 256 pixels.\<close>

definition resize_ok :: "world \<Rightarrow> bool" where
  "resize_ok w =
     (\<forall>img. \<not> image_empty img \<longrightarrow>
        length (cv_resize w img) = 256 \<and> list_all (\<lambda>row. length row = 256) (cv_resize w img))"

text \<open>The ROI crop of a frame is an image with rows and columns.\<close>

definition crop_ok :: "json \<times> json \<times> json \<times> json \<Rightarrow> image \<Rightarrow> bool" where
  "crop_ok roi4 img = (case crop_roi img roi4 of Inl err \<Rightarrow> False | Inr crop \<Rightarrow> \<not> image_empty crop)"

text \<open>The resized patch of a frame, still in the decoder's BGR order.\<close>

definition patch_of :: "world \<Rightarrow> json \<times> json \<times> json \<times> json \<Rightarrow> image \<Rightarrow> image" where
  "patch_of w roi4 img = (case crop_roi img roi4 of Inl err \<Rightarrow> [] | Inr crop \<Rightarrow> cv_resize w crop)"

text \<open>A sequence tensor of shape \<open>(k, 3, 256, 256)\<close>, and one with all elements in \<open>[0, 1]\<close>.\<close>

definition has_shape :: "tensor4 \<Rightarrow> nat \<Rightarrow> bool" where
  "has_shape seq k =
     (length seq = k \<and>
      list_all (\<lambda>t. length t = 3 \<and>
        list_all (\<lambda>pl. length pl = 256 \<and> list_all (\<lambda>row. length row = 256) pl) t) seq)"

definition in_unit_range :: "tensor4 \<Rightarrow> bool" where
  "in_unit_range seq =
     list_all (list_all (list_all (list_all (\<lambda>x. 0 \<le> x \<and> x \<le> 1)))) seq"

text \<open>Channel-first RGB: plane 0 of frame \<open>n\<close> holds the red bytes of the patch (its third
  channel, in BGR order), plane 1 the green and plane 2 the blue ones, each over 255.\<close>

definition rgb_of_patch :: "tensor3 \<Rightarrow> image \<Rightarrow> bool" where
  "rgb_of_patch t patch =
     (t = [map (map (\<lambda>(b, g, r). real (unat r) / 255)) patch,
           map (map (\<lambda>(b, g, r). real (unat g) / 255)) patch,
           map (map (\<lambda>(b, g, r). real (unat b) / 255)) patch])"

text \<open>
  The records whose event ranges can be read. A value is accepted by \<^verbatim>\<open>int\<close> when it is an
  int, a bool, a finite float or a str that \<^verbatim>\<open>int\<close> can read; an entry of \<^verbatim>\<open>event_frame\<close> is
  readable when it iterates to exactly two such values; a record is readable when it is an
  object whose \<^verbatim>\<open>annotations\<close> is an object whose \<^verbatim>\<open>event_frame\<close> is iterable with readable
  entries only.
\<close>

definition int_accepts :: "(string \<Rightarrow> int option) \<Rightarrow> json \<Rightarrow> bool" where
  "int_accepts int_str v =
     (case v of
        JInt n \<Rightarrow> True
      | JBool b \<Rightarrow> True
      | JFloat f \<Rightarrow> (case f of Finite q \<Rightarrow> True | _ \<Rightarrow> False)
      | JStr s \<Rightarrow> int_str s \<noteq> None
      | _ \<Rightarrow> False)"

definition readable_entry :: "(string \<Rightarrow> int option) \<Rightarrow> json \<Rightarrow> bool" where
  "readable_entry int_str x =
     (case py_iter x of
        Inl err \<Rightarrow> False
      | Inr vs \<Rightarrow> length vs = 2 \<and> list_all (int_accepts int_str) vs)"

definition readable_record :: "(string \<Rightarrow> int option) \<Rightarrow> json \<Rightarrow> bool" where
  "readable_record int_str item =
     (case item of
        JObj ikvs \<Rightarrow>
          (case map_of ikvs ''annotations'' of
             Some (JObj kvs) \<Rightarrow>
               (case map_of kvs ''event_frame'' of
                  Some ef \<Rightarrow>
                    (case py_iter ef of
                       Inl err \<Rightarrow> False
                     | Inr elems \<Rightarrow> list_all (readable_entry int_str) elems)
                | None \<Rightarrow> False)
           | _ \<Rightarrow> False)
      | _ \<Rightarrow> False)"

text \<open>The values that can be iterated: lists, strs and objects.\<close>

definition iterable :: "json \<Rightarrow> bool" where
  "iterable v = (case v of JArr xs \<Rightarrow> True | JStr s \<Rightarrow> True | JObj kvs \<Rightarrow> True | _ \<Rightarrow> False)"

text \<open>The block of samples of one annotation file: as many as the video has windows, all
  of its video, with the starts \<open>0, 1, ...\<close> in order.\<close>

definition block_of :: "world \<Rightarrow> string \<Rightarrow> int \<Rightarrow> string \<Rightarrow> multi_sample list \<Rightarrow> bool" where
  "block_of w video_dir seq_len ann_path blk =
     (length blk = window_count w video_dir seq_len ann_path \<and>
      (\<forall>i < length blk. fst (blk ! i) = video_path_in video_dir ann_path
          \<and> multi_start (blk ! i) = int i))"

section \<open>Example inputs\<close>

text \<open>A resize by nearest neighbour, to have a decoder to run the examples with.\<close>

definition nn_resize :: "image \<Rightarrow> image" where
  "nn_resize img =
     map (\<lambda>i. map (\<lambda>j. img ! (i * length img div 256) ! (j * length (hd img) div 256)) [0..<256])
       [0..<256]"

text \<open>A reading of plain decimal numerals, for \<^verbatim>\<open>int\<close> on a str in the examples.\<close>

definition read_decimal :: "string \<Rightarrow> int option" where
  "read_decimal s =
     (if s \<noteq> [] \<and> list_all (\<lambda>c. 48 \<le> (of_char c :: nat) \<and> (of_char c :: nat) \<le> 57) s
      then Some (foldl (\<lambda>acc c. 10 * acc + (int (of_char c) - 48)) 0 s)
      else None)"

definition small_frame :: image where
  "small_frame = [[(1, 2, 3), (4, 5, 6)], [(7, 8, 9), (10, 11, 12)]]"

definition default_roi_value :: json where
  "default_roi_value = JArr [JInt 1150, JInt 300, JInt 1600, JInt 700]"

definition record_a :: json where
  "record_a = JObj [(''annotations'',
     JObj [(''event_frame'', JArr [JArr [JInt 5, JInt 9]]),
           (''roi'', JArr [JInt 0, JInt 0, JInt 2, JInt 2])])]"

definition record_b :: json where
  "record_b = JObj [(''annotations'', JObj [(''event_frame'', JArr [])])]"

text \<open>A record whose only event range is the string \<^verbatim>\<open>"59"\<close> instead of a pair.\<close>

definition record_odd :: json where
  "record_odd = JObj [(''annotations'', JObj [(''event_frame'', JArr [JStr ''59''])])]"

text \<open>A record whose \<^verbatim>\<open>event_frame\<close> is an empty object, not a list.\<close>

definition record_nolist :: json where
  "record_nolist = JObj [(''annotations'', JObj [(''event_frame'', JObj [])])]"

text \<open>A record without \<^verbatim>\<open>event_frame\<close>.\<close>

definition record_bad :: json where
  "record_bad = JObj [(''annotations'', JObj [(''roi'', JArr [JInt 0, JInt 0, JInt 2, JInt 2])])]"

text \<open>
  A label directory \<^verbatim>\<open>/data/label\<close> with \<^verbatim>\<open>a.json\<close> and \<^verbatim>\<open>b.json\<close>, whose videos report 12
  and 14 frames; the decoder can read 3 frames of the first and none of the second.
  Two more annotation files lie in \<^verbatim>\<open>/other/label\<close>.
\<close>

definition example_world :: world where
  "example_world =
     \<lparr>glob_glob = (\<lambda>pat. if pat = ''/data/label/*.json''
                          then [''/data/label/a.json'', ''/data/label/b.json'']
                        else if pat = ''/other/label/*.json''
                          then [''/other/label/a.json'', ''/other/label/bad.json'']
                        else []),
      json_load = (\<lambda>p. if p = ''/data/label/a.json'' then Inr record_a
                        else if p = ''/data/label/b.json'' then Inr record_b
                        else if p = ''/data/label/odd.json'' then Inr record_odd
                        else if p = ''/data/label/nolist.json'' then Inr record_nolist
                        else if p = ''/other/label/a.json'' then Inr record_a
                        else if p = ''/other/label/bad.json'' then Inr record_bad
                        else Inl OSError),
      videos = (\<lambda>p. if p = ''/data/video/a.mp4''
                       then Some \<lparr>frame_count_prop = 12, video_frames = replicate 3 small_frame\<rparr>
                     else if p = ''/data/video/b.mp4''
                       then Some \<lparr>frame_count_prop = 14, video_frames = []\<rparr>
                     else if p = ''/data/video/odd.mp4''
                       then Some \<lparr>frame_count_prop = 9, video_frames = replicate 9 small_frame\<rparr>
                     else if p = ''/data/video/nolist.mp4''
                       then Some \<lparr>frame_count_prop = 9, video_frames = replicate 9 small_frame\<rparr>
                     else None),
      cv_resize = nn_resize,
      str_to_int = read_decimal\<rparr>"

text \<open>The example world with the given record in every annotation file.\<close>

definition holding :: "json \<Rightarrow> world" where
  "holding item = example_world\<lparr>json_load := (\<lambda>p. Inr item)\<rparr>"

text \<open>The datasets the constructors build from these inputs, and a transform that
  returns one fixed tensor.\<close>

definition example_multi :: multi_dataset where
  "example_multi =
     \<lparr>m_seq_len = 8, m_default_roi = default_roi_value, m_transform = None,
      m_samples =
        map (\<lambda>start. (''/data/video/a.mp4'', start, 1, [JInt 0, JInt 0, JInt 2, JInt 2]))
          [0, 1, 2, 3, 4]
        @ map (\<lambda>start. (''/data/video/b.mp4'', start, 0,
                 [JInt 1150, JInt 300, JInt 1600, JInt 700])) [0, 1, 2, 3, 4, 5, 6]\<rparr>"

definition example_single :: "json \<Rightarrow> single_dataset" where
  "example_single roi =
     \<lparr>s_seq_len = 8, s_fps = 8, s_transform = None, s_roi = roi,
      s_samples = map (\<lambda>start. (''/data/video/a.mp4'', start, 1)) [0, 1, 2, 3, 4]\<rparr>"

definition example_single_odd :: single_dataset where
  "example_single_odd =
     \<lparr>s_seq_len = 8, s_fps = 8, s_transform = None,
      s_roi = JArr [JInt 0, JInt 0, JInt 2, JInt 2],
      s_samples = [(''/data/video/odd.mp4'', 0, 1), (''/data/video/odd.mp4'', 1, 1)]\<rparr>"

definition constant_transform :: "tensor4 \<Rightarrow> error + tensor4" where
  "constant_transform seq = Inr [[[[2]]]]"

section \<open>Properties of the indexer\<close>

lemma label_loop_eq:
  "label_loop start endw lbl rs =
     (if list_ex (\<lambda>(s, e). \<not> (endw < s \<or> start > e)) rs then 1 else lbl)"
  by (induction rs) auto

lemma multi_windows_map:
  "multi_windows seq_len af vpath roi starts samples =
     samples @ map (\<lambda>start. (vpath, start, label_loop start (start + seq_len - 1) 0 af, roi)) starts"
  by (induction starts arbitrary: samples) (simp_all add: Let_def)

lemma single_windows_map:
  "single_windows seq_len af vpath starts samples =
     samples @ map (\<lambda>start. (vpath, start, label_loop start (start + seq_len - 1) 0 af)) starts"
  by (induction starts arbitrary: samples) (simp_all add: Let_def)

lemma multi_windows_starts:
  "map multi_start (multi_windows seq_len af vpath roi starts []) = starts"
  by (simp add: multi_windows_map multi_start_def comp_def)

lemma single_windows_starts:
  "map single_start (single_windows seq_len af vpath starts []) = starts"
  by (simp add: single_windows_map single_start_def comp_def)

lemma label_loop_explicit:
  "label_loop start (start + seq_len - 1) 0 af
     = (if \<exists>(s, e) \<in> set af. \<not> (start + seq_len - 1 < s \<or> start > e) then 1 else 0)"
  by (simp add: label_loop_eq list_ex_iff)

lemma multi_windows_explicit:
  "multi_windows seq_len af vpath roi starts samples =
     samples @ map (\<lambda>start. (vpath, start,
        (if \<exists>(s, e) \<in> set af. \<not> (start + seq_len - 1 < s \<or> start > e) then 1 else 0), roi))
       starts"
  by (simp add: multi_windows_map label_loop_explicit)

lemma single_windows_explicit:
  "single_windows seq_len af vpath starts samples =
     samples @ map (\<lambda>start. (vpath, start,
        (if \<exists>(s, e) \<in> set af. \<not> (start + seq_len - 1 < s \<or> start > e) then 1 else 0)))
       starts"
  by (simp add: single_windows_map label_loop_explicit)

lemma sorted_wrt_upto: "sorted_wrt (<) [i..j]"
proof (induction i j rule: upto.induct)
  case (1 i j)
  show ?case
  proof (cases "i \<le> j")
    case True
    then have "[i..j] = i # [i + 1..j]" by (simp add: upto_rec1)
    with 1 True show ?thesis by auto
  next
    case False
    then show ?thesis by simp
  qed
qed

lemma length_py_range: "length (py_range lo hi) = nat (hi - lo)"
  by (simp add: py_range_def)

text \<open>
  Claim C1. For positive \<open>frame_count\<close> and \<open>seq_len\<close> with \<open>seq_len \<le> frame_count\<close>, the
  sliding-window loop of either constructor produces exactly \<open>frame_count - seq_len + 1\<close>
  samples, whose start indices are \<open>0, 1, ..., frame_count - seq_len\<close> in strictly increasing
  order; for \<open>frame_count < seq_len\<close> it produces no sample (and, being a total function of
  integers, raises nothing).
\<close>

theorem indexer_starts:
  "(0 < frame_count \<and> 0 < seq_len \<and> seq_len \<le> frame_count \<longrightarrow>
      length (multi_windows seq_len af vpath roi (py_range 0 (frame_count - seq_len + 1)) [])
        = nat (frame_count - seq_len + 1)
    \<and> map multi_start (multi_windows seq_len af vpath roi (py_range 0 (frame_count - seq_len + 1)) [])
        = [0..frame_count - seq_len]
    \<and> sorted_wrt (<) (map multi_start
        (multi_windows seq_len af vpath roi (py_range 0 (frame_count - seq_len + 1)) []))
    \<and> length (single_windows seq_len af vpath (py_range 0 (frame_count - seq_len + 1)) [])
        = nat (frame_count - seq_len + 1)
    \<and> map single_start (single_windows seq_len af vpath (py_range 0 (frame_count - seq_len + 1)) [])
        = [0..frame_count - seq_len]
    \<and> sorted_wrt (<) (map single_start
        (single_windows seq_len af vpath (py_range 0 (frame_count - seq_len + 1)) [])))
   \<and> (frame_count < seq_len \<longrightarrow>
      multi_windows seq_len af vpath roi (py_range 0 (frame_count - seq_len + 1)) [] = []
    \<and> single_windows seq_len af vpath (py_range 0 (frame_count - seq_len + 1)) [] = [])"
proof -
  have r: "py_range 0 (frame_count - seq_len + 1) = [0..frame_count - seq_len]"
    by (simp add: py_range_def)
  have len_m: "length (multi_windows seq_len af vpath roi [0..frame_count - seq_len] [])
      = nat (frame_count - seq_len + 1)"
    by (simp add: multi_windows_map)
  have len_s: "length (single_windows seq_len af vpath [0..frame_count - seq_len] [])
      = nat (frame_count - seq_len + 1)"
    by (simp add: single_windows_map)
  have empty: "frame_count < seq_len \<Longrightarrow> [0..frame_count - seq_len] = []"
    by simp
  show ?thesis
    unfolding r
    using len_m len_s empty
    by (simp add: multi_windows_starts single_windows_starts sorted_wrt_upto)
qed

theorem indexer_starts_witness:
  "map multi_start (multi_windows 8 [(5, 9)] ''v.mp4'' [] (py_range 0 (20 - 8 + 1)) [])
     = [0, 1, 2, 3, 4, 5, 6, 7, 8, 9, 10, 11, 12]
   \<and> length (single_windows 8 [(5, 9)] ''v.mp4'' (py_range 0 (20 - 8 + 1)) []) = 13
   \<and> multi_windows 8 [(5, 9)] ''v.mp4'' [] (py_range 0 (3 - 8 + 1)) [] = []
   \<and> single_windows 8 [(5, 9)] ''v.mp4'' (py_range 0 (3 - 8 + 1)) [] = []"
  using indexer_starts [of 20 8 "[(5, 9)]" "''v.mp4''" "[]"]
        indexer_starts [of 3 8 "[(5, 9)]" "''v.mp4''" "[]"]
  by (simp add: upto_rec1)

text \<open>
  Claim C2. For every list of window starts and every list of event ranges, the loop of
  either constructor produces, for each start in turn, the sample whose label is 1.0 when
  the window \<open>[start, start + seq_len - 1]\<close> meets at least one event range \<open>[s, e]\<close> under the
  test \<open>\<not> (start + seq_len - 1 < s \<or> start > e)\<close>, and 0.0 otherwise. In particular the
  sample of a window that only touches a range (\<open>s \<le> e\<close>) at its boundary, window end \<open>= s\<close>
  or \<open>start = e\<close>, has label 1.0; one matching range suffices whatever the other ranges
  are; and the sample of a window that meets no range has label 0.0.
\<close>

theorem indexer_label:
  "multi_windows seq_len af vpath roi starts []
     = map (\<lambda>start. (vpath, start,
         (if \<exists>(s, e) \<in> set af. \<not> (start + seq_len - 1 < s \<or> start > e) then 1 else 0), roi))
        starts
   \<and> single_windows seq_len af vpath starts []
     = map (\<lambda>start. (vpath, start,
         (if \<exists>(s, e) \<in> set af. \<not> (start + seq_len - 1 < s \<or> start > e) then 1 else 0)))
        starts
   \<and> (start \<in> set starts \<and> 0 < seq_len \<and> (s, e) \<in> set af \<and> s \<le> e
        \<and> (start + seq_len - 1 = s \<or> start = e) \<longrightarrow>
      (vpath, start, 1, roi) \<in> set (multi_windows seq_len af vpath roi starts [])
      \<and> (vpath, start, 1) \<in> set (single_windows seq_len af vpath starts []))
   \<and> (start \<in> set starts \<and> (s, e) \<in> set af \<and> \<not> (start + seq_len - 1 < s \<or> start > e) \<longrightarrow>
      (vpath, start, 1, roi) \<in> set (multi_windows seq_len af vpath roi starts [])
      \<and> (vpath, start, 1) \<in> set (single_windows seq_len af vpath starts []))
   \<and> (start \<in> set starts \<and> (\<forall>(s, e) \<in> set af. start + seq_len - 1 < s \<or> start > e) \<longrightarrow>
      (vpath, start, 0, roi) \<in> set (multi_windows seq_len af vpath roi starts [])
      \<and> (vpath, start, 0) \<in> set (single_windows seq_len af vpath starts []))"
proof -
  let ?hit = "\<lambda>st. \<exists>(s, e) \<in> set af. \<not> (st + seq_len - 1 < s \<or> st > e)"
  have m: "multi_windows seq_len af vpath roi starts []
      = map (\<lambda>start. (vpath, start, (if ?hit start then 1 else 0), roi)) starts"
    by (simp add: multi_windows_explicit)
  have sg: "single_windows seq_len af vpath starts []
      = map (\<lambda>start. (vpath, start, (if ?hit start then 1 else 0))) starts"
    by (simp add: single_windows_explicit)
  have mem: "(vpath, start, (if ?hit start then 1 else 0), roi)
        \<in> set (multi_windows seq_len af vpath roi starts [])
      \<and> (vpath, start, (if ?hit start then 1 else 0))
        \<in> set (single_windows seq_len af vpath starts [])"
    if "start \<in> set starts"
    unfolding m sg using that by (simp add: image_iff)
  have one: "?hit start" if "(s, e) \<in> set af" "\<not> (start + seq_len - 1 < s \<or> start > e)"
    using that by blast
  have touch: "?hit start"
    if "0 < seq_len" "(s, e) \<in> set af" "s \<le> e" "start + seq_len - 1 = s \<or> start = e"
    using that(2) by (rule one) (use that in auto)
  have none: "\<not> ?hit start" if "\<forall>(s, e) \<in> set af. start + seq_len - 1 < s \<or> start > e"
    using that by blast
  have c3: "(vpath, start, 1, roi) \<in> set (multi_windows seq_len af vpath roi starts [])
      \<and> (vpath, start, 1) \<in> set (single_windows seq_len af vpath starts [])"
    if "start \<in> set starts" "?hit start"
    using mem [OF that(1)] that(2) by simp
  have c5: "(vpath, start, 0, roi) \<in> set (multi_windows seq_len af vpath roi starts [])
      \<and> (vpath, start, 0) \<in> set (single_windows seq_len af vpath starts [])"
    if "start \<in> set starts" "\<not> ?hit start"
    using mem [OF that(1)] that(2) by simp
  from m sg c3 c5 one touch none show ?thesis by blast
qed

theorem indexer_label_witness:
  "multi_windows 8 [(5, 9)] ''v.mp4'' [] [9, 10] []
     = [(''v.mp4'', 9, 1, []), (''v.mp4'', 10, 0, [])]
   \<and> single_windows 8 [(5, 9)] ''v.mp4'' [9, 10] [] = [(''v.mp4'', 9, 1), (''v.mp4'', 10, 0)]
   \<and> (''v.mp4'', 5, 1, []) \<in> set (multi_windows 8 [(30, 40), (12, 15)] ''v.mp4'' [] [5, 15, 16] [])
   \<and> (''v.mp4'', 15, 1) \<in> set (single_windows 8 [(30, 40), (12, 15)] ''v.mp4'' [5, 15, 16] [])
   \<and> (''v.mp4'', 16, 0, []) \<in> set (multi_windows 8 [(30, 40), (12, 15)] ''v.mp4'' [] [5, 15, 16] [])
   \<and> (''v.mp4'', 16, 0) \<in> set (single_windows 8 [(30, 40), (12, 15)] ''v.mp4'' [5, 15, 16] [])"
proof -
  note a = indexer_label [of 8 "[(5, 9)]" "''v.mp4''" "[]" "[9, 10]" 9 5 9]
  note b = indexer_label [of 8 "[(30, 40), (12, 15)]" "''v.mp4''" "[]" "[5, 15, 16]" 5 12 15]
  note c = indexer_label [of 8 "[(30, 40), (12, 15)]" "''v.mp4''" "[]" "[5, 15, 16]" 15 12 15]
  note d = indexer_label [of 8 "[(30, 40), (12, 15)]" "''v.mp4''" "[]" "[5, 15, 16]" 16 12 15]
  have m: "multi_windows 8 [(5, 9)] ''v.mp4'' [] [9, 10] []
     = [(''v.mp4'', 9, 1, []), (''v.mp4'', 10, 0, [])]"
    using a [THEN conjunct1] by simp
  have sg: "single_windows 8 [(5, 9)] ''v.mp4'' [9, 10] []
     = [(''v.mp4'', 9, 1), (''v.mp4'', 10, 0)]"
    using a [THEN conjunct2, THEN conjunct1] by simp
  have t1: "(''v.mp4'', 5, 1, []) \<in> set (multi_windows 8 [(30, 40), (12, 15)] ''v.mp4'' [] [5, 15, 16] [])"
    using b [THEN conjunct2, THEN conjunct2, THEN conjunct1] by simp
  have t2: "(''v.mp4'', 15, 1) \<in> set (single_windows 8 [(30, 40), (12, 15)] ''v.mp4'' [5, 15, 16] [])"
    using c [THEN conjunct2, THEN conjunct2, THEN conjunct1] by simp
  have t3: "(''v.mp4'', 16, 0, []) \<in> set (multi_windows 8 [(30, 40), (12, 15)] ''v.mp4'' [] [5, 15, 16] [])
      \<and> (''v.mp4'', 16, 0) \<in> set (single_windows 8 [(30, 40), (12, 15)] ''v.mp4'' [5, 15, 16] [])"
    using d [THEN conjunct2, THEN conjunct2, THEN conjunct2, THEN conjunct2] by simp
  from m sg t1 t2 t3 show ?thesis by blast
qed

text \<open>
  Claim C3. The label computed by the short-circuiting loop does not depend on the order of
  the event ranges: for any reordering of the list the indexer yields the same sequence of
  samples (same starts and labels).
\<close>

theorem indexer_permutation:
  "mset af = mset af' \<Longrightarrow>
     multi_windows seq_len af vpath roi starts samples
       = multi_windows seq_len af' vpath roi starts samples
   \<and> single_windows seq_len af vpath starts ssamples
       = single_windows seq_len af' vpath starts ssamples"
proof -
  assume p: "mset af = mset af'"
  then have "set af = set af'" by (rule mset_eq_setD)
  then have "label_loop st en 0 af = label_loop st en 0 af'" for st en
    by (simp add: label_loop_eq list_ex_iff)
  then show ?thesis
    by (simp add: multi_windows_map single_windows_map)
qed

theorem indexer_permutation_witness:
  "multi_windows 8 [(5, 9), (30, 31)] ''v.mp4'' [] [0, 20, 25] []
     = multi_windows 8 [(30, 31), (5, 9)] ''v.mp4'' [] [0, 20, 25] []
   \<and> single_windows 8 [(5, 9), (30, 31)] ''v.mp4'' [0, 20, 25] []
     = single_windows 8 [(30, 31), (5, 9)] ''v.mp4'' [0, 20, 25] []"
proof -
  have "mset [(5::int, 9::int), (30, 31)] = mset [(30, 31), (5, 9)]" by simp
  from indexer_permutation [OF this] show ?thesis by blast
qed

section \<open>The example inputs, evaluated\<close>

lemma ex_glob:
  "glob_glob example_world ''/data/label/*.json'' = [''/data/label/a.json'', ''/data/label/b.json'']"
  "glob_glob example_world ''/other/label/*.json'' = [''/other/label/a.json'', ''/other/label/bad.json'']"
  by (simp_all add: example_world_def)

lemma ex_load:
  "json_load example_world ''/data/label/a.json'' = Inr record_a"
  "json_load example_world ''/data/label/b.json'' = Inr record_b"
  "json_load example_world ''/data/label/odd.json'' = Inr record_odd"
  "json_load example_world ''/data/label/nolist.json'' = Inr record_nolist"
  "json_load example_world ''/nowhere/label/x.json'' = Inl OSError"
  "json_load example_world ''/other/label/a.json'' = Inr record_a"
  "json_load example_world ''/other/label/bad.json'' = Inr record_bad"
  by (simp_all add: example_world_def)

lemma ex_videos:
  "videos example_world ''/data/video/a.mp4''
     = Some \<lparr>frame_count_prop = 12, video_frames = replicate 3 small_frame\<rparr>"
  "videos example_world ''/data/video/b.mp4'' = Some \<lparr>frame_count_prop = 14, video_frames = []\<rparr>"
  "videos example_world ''/data/video/odd.mp4''
     = Some \<lparr>frame_count_prop = 9, video_frames = replicate 9 small_frame\<rparr>"
  "videos example_world ''/data/video/nolist.mp4''
     = Some \<lparr>frame_count_prop = 9, video_frames = replicate 9 small_frame\<rparr>"
  "videos example_world ''/other/video/a.mp4'' = None"
  by (simp_all add: example_world_def)

lemma ex_resize: "cv_resize example_world = nn_resize"
  by (simp add: example_world_def)

lemma ex_str_to_int: "str_to_int example_world = read_decimal"
  by (simp add: example_world_def)

lemma ex_paths:
  "multi_json_paths example_world ''/data/label'' = [''/data/label/a.json'', ''/data/label/b.json'']"
  "multi_json_paths example_world ''/other/label'' = [''/other/label/a.json'', ''/other/label/bad.json'']"
  "multi_video_dir ''/data/label'' = ''/data/video''"
  "multi_video_dir ''/other/label'' = ''/other/video''"
  by (simp_all add: multi_json_paths_def multi_video_dir_def path_join_def path_dirname_def
      rfind_def ex_glob)

lemma ex_vpath:
  "video_path_in ''/data/video'' ''/data/label/a.json'' = ''/data/video/a.mp4''"
  "video_path_in ''/data/video'' ''/data/label/b.json'' = ''/data/video/b.mp4''"
  "video_path_in ''/other/video'' ''/other/label/a.json'' = ''/other/video/a.mp4''"
  "single_video_path ''/data/label/a.json'' = ''/data/video/a.mp4''"
  "single_video_path ''/data/label/odd.json'' = ''/data/video/odd.mp4''"
  "single_video_path ''/data/label/nolist.json'' = ''/data/video/nolist.mp4''"
  "single_video_path ''/other/label/bad.json'' = ''/other/video/bad.mp4''"
  by (simp_all add: single_video_path_def video_path_in_def path_join_def path_basename_def
      path_dirname_def path_splitext_root_def rfind_def)

lemma ex_records:
  "event_frames int_str record_a = Inr [(5, 9)]"
  "event_frames int_str record_b = Inr []"
  "event_frames int_str record_nolist = Inr []"
  "event_frames int_str record_bad = Inl (KeyError ''event_frame'')"
  "record_roi record_a dr = Inr [JInt 0, JInt 0, JInt 2, JInt 2]"
  "record_roi record_b default_roi_value = Inr [JInt 1150, JInt 300, JInt 1600, JInt 700]"
  by (simp_all add: event_frames_def record_roi_def record_a_def record_b_def record_bad_def
      record_nolist_def py_subscript_def py_get_def py_iter_def py_unpack2_def py_int_def default_roi_value_def)

lemma ex_record_odd: "event_frames read_decimal record_odd = Inr [(5, 9)]"
  by (simp add: event_frames_def record_odd_def py_subscript_def py_iter_def py_unpack2_def
      py_int_def read_decimal_def)

lemma ex_multi_init:
  "\<not> isl (multi_init example_world ''/data/label'' 8 default_roi_value None)"
  by (simp add: multi_init_def ex_paths multi_file_def ex_load ex_records Let_def)

section \<open>Properties of the multi-video constructor\<close>

lemma multi_file_block:
  assumes "multi_file w vd sl dr p samples = Inr res"
  shows "\<exists>blk. res = samples @ blk \<and> block_of w vd sl p blk"
proof -
  from assms obtain roi af where
    res: "res = multi_windows sl af (video_path_in vd p) roi
            (py_range 0 (frame_count_of w (video_path_in vd p) - sl + 1)) samples"
    by (auto simp: multi_file_def Let_def split: sum.splits)
  let ?n = "frame_count_of w (video_path_in vd p) - sl"
  let ?blk = "map (\<lambda>start. (video_path_in vd p, start,
      label_loop start (start + sl - 1) 0 af, roi)) [0..?n]"
  have "res = samples @ ?blk"
    by (simp add: res multi_windows_map py_range_def)
  moreover have "block_of w vd sl p ?blk"
    by (auto simp: block_of_def window_count_def multi_start_def)
  ultimately show ?thesis by blast
qed

lemma multi_files_blocks:
  "multi_files w vd sl dr paths samples = Inr res \<Longrightarrow>
     \<exists>blks. res = samples @ concat blks \<and> list_all2 (block_of w vd sl) paths blks"
proof (induction paths arbitrary: samples)
  case Nil
  then show ?case by simp
next
  case (Cons p ps)
  from Cons.prems obtain mid where
    f: "multi_file w vd sl dr p samples = Inr mid" and
    r: "multi_files w vd sl dr ps mid = Inr res"
    by (auto split: sum.splits)
  from multi_file_block [OF f] obtain blk where
    blk: "mid = samples @ blk" "block_of w vd sl p blk" by blast
  from Cons.IH [OF r] obtain blks where
    blks: "res = mid @ concat blks" "list_all2 (block_of w vd sl) ps blks" by blast
  have "res = samples @ concat (blk # blks)" using blk blks by simp
  moreover have "list_all2 (block_of w vd sl) (p # ps) (blk # blks)" using blk blks by simp
  ultimately show ?case by blast
qed

lemma nth_concat_offset:
  "k < length xss \<Longrightarrow> i < length (xss ! k) \<Longrightarrow>
     concat xss ! (sum_list (map length (take k xss)) + i) = xss ! k ! i"
proof (induction xss arbitrary: k)
  case Nil
  then show ?case by simp
next
  case (Cons xs xss)
  show ?case
  proof (cases k)
    case 0
    with Cons.prems show ?thesis by (simp add: nth_append)
  next
    case (Suc m)
    with Cons.prems have "concat xss ! (sum_list (map length (take m xss)) + i) = xss ! m ! i"
      by (intro Cons.IH) simp_all
    with Suc show ?thesis by (simp add: nth_append add.assoc)
  qed
qed

lemma blocks_lengths:
  "list_all2 (block_of w vd sl) paths blks \<Longrightarrow>
     map length blks = map (window_count w vd sl) paths"
  by (induction rule: list_all2_induct) (simp_all add: block_of_def)

text \<open>
  Claim C4. For a multi-video dataset that was constructed, \<^verbatim>\<open>__len__\<close> returns the sum, over the
  annotation files found, of the video's window count \<open>max (frame_count - seq_len + 1, 0)\<close>,
  and the samples of the \<open>k\<close>-th file stand at the consecutive indices that follow the
  samples of the files before it, in the order the files were processed: sample \<open>i\<close> of
  that block is window \<open>i\<close> of the file's video.
\<close>

theorem multi_len_blocks:
  assumes "multi_init w label_dir seq_len default_roi transform = Inr ds"
  shows "multi_len ds =
           sum_list (map (window_count w (multi_video_dir label_dir) seq_len)
                      (multi_json_paths w label_dir))
       \<and> (\<forall>k i. k < length (multi_json_paths w label_dir)
              \<and> i < window_count w (multi_video_dir label_dir) seq_len
                      (multi_json_paths w label_dir ! k) \<longrightarrow>
            fst (m_samples ds !
                  (sum_list (map (window_count w (multi_video_dir label_dir) seq_len)
                     (take k (multi_json_paths w label_dir))) + i))
              = video_path_in (multi_video_dir label_dir) (multi_json_paths w label_dir ! k)
          \<and> multi_start (m_samples ds !
                  (sum_list (map (window_count w (multi_video_dir label_dir) seq_len)
                     (take k (multi_json_paths w label_dir))) + i)) = int i)"
proof -
  let ?paths = "multi_json_paths w label_dir"
  let ?vd = "multi_video_dir label_dir"
  let ?wc = "window_count w ?vd seq_len"
  from assms obtain samples where
    fs: "multi_files w ?vd seq_len default_roi ?paths [] = Inr samples" and
    ds: "m_samples ds = samples"
    by (auto simp: multi_init_def Let_def split: sum.splits)
  from multi_files_blocks [OF fs] obtain blks where
    cat: "samples = concat blks" and all2: "list_all2 (block_of w ?vd seq_len) ?paths blks"
    by auto
  have lens: "map length blks = map ?wc ?paths" by (rule blocks_lengths [OF all2])
  have len: "length blks = length ?paths" using all2 by (simp add: list_all2_lengthD)
  have total: "multi_len ds = sum_list (map ?wc ?paths)"
    by (simp add: multi_len_def ds cat length_concat lens)
  have block: "fst (m_samples ds ! (sum_list (map ?wc (take k ?paths)) + i)) = video_path_in ?vd (?paths ! k)
      \<and> multi_start (m_samples ds ! (sum_list (map ?wc (take k ?paths)) + i)) = int i"
    if k: "k < length ?paths" and i: "i < ?wc (?paths ! k)" for k i
  proof -
    have b: "block_of w ?vd seq_len (?paths ! k) (blks ! k)"
      using all2 k by (simp add: list_all2_nthD)
    then have li: "i < length (blks ! k)" using i by (simp add: block_of_def)
    have off: "sum_list (map ?wc (take k ?paths)) = sum_list (map length (take k blks))"
      using lens by (metis take_map)
    have "m_samples ds ! (sum_list (map ?wc (take k ?paths)) + i) = blks ! k ! i"
      unfolding ds cat off using k len li by (intro nth_concat_offset) simp_all
    with b li show ?thesis by (simp add: block_of_def)
  qed
  from total block show ?thesis by blast
qed

theorem multi_len_blocks_witness:
  "multi_len (projr (multi_init example_world ''/data/label'' 8 default_roi_value None)) = 12
   \<and> fst (m_samples (projr (multi_init example_world ''/data/label'' 8 default_roi_value None)) ! 4)
       = ''/data/video/a.mp4''
   \<and> fst (m_samples (projr (multi_init example_world ''/data/label'' 8 default_roi_value None)) ! 5)
       = ''/data/video/b.mp4''
   \<and> fst (m_samples (projr (multi_init example_world ''/data/label'' 8 default_roi_value None)) ! 11)
       = ''/data/video/b.mp4''"
proof -
  let ?ds = "projr (multi_init example_world ''/data/label'' 8 default_roi_value None)"
  have wa: "window_count example_world ''/data/video'' 8 ''/data/label/a.json'' = 5"
    by (simp add: window_count_def ex_vpath frame_count_of_def ex_videos)
  have wb: "window_count example_world ''/data/video'' 8 ''/data/label/b.json'' = 7"
    by (simp add: window_count_def ex_vpath frame_count_of_def ex_videos)
  have init: "multi_init example_world ''/data/label'' 8 default_roi_value None = Inr ?ds"
    using ex_multi_init by simp
  note th = multi_len_blocks [OF init, unfolded ex_paths]
  from th have len: "multi_len ?ds = 12" by (simp add: wa wb)
  from th have b: "k < 2 \<Longrightarrow> i < window_count example_world ''/data/video'' 8
          ([''/data/label/a.json'', ''/data/label/b.json''] ! k) \<Longrightarrow>
      fst (m_samples ?ds ! (sum_list (map (window_count example_world ''/data/video'' 8)
              (take k [''/data/label/a.json'', ''/data/label/b.json''])) + i))
        = video_path_in ''/data/video'' ([''/data/label/a.json'', ''/data/label/b.json''] ! k)" for k i
    by simp
  from b [of 0 4] have a4: "fst (m_samples ?ds ! 4) = ''/data/video/a.mp4''"
    by (simp add: wa ex_vpath)
  from b [of 1 0] have b5: "fst (m_samples ?ds ! 5) = ''/data/video/b.mp4''"
    by (simp add: wa wb ex_vpath)
  from b [of 1 6] have b11: "fst (m_samples ?ds ! 11) = ''/data/video/b.mp4''"
    by (simp add: wa wb ex_vpath)
  from len a4 b5 b11 show ?thesis by simp
qed

section \<open>Properties of the annotation loader\<close>

lemma convert_pairs:
  "convert_ranges int_str (map (\<lambda>(s, e). JArr [JInt s, JInt e]) ranges) = Inr ranges"
  by (induction ranges) (auto simp: py_unpack2_def py_iter_def py_int_def)

lemma event_frames_pairs:
  "map_of ikvs ''annotations'' = Some (JObj kvs) \<Longrightarrow>
   map_of kvs ''event_frame'' = Some (JArr (map (\<lambda>(s, e). JArr [JInt s, JInt e]) ranges)) \<Longrightarrow>
   event_frames int_str (JObj ikvs) = Inr ranges"
  by (simp add: event_frames_def py_subscript_def py_iter_def convert_pairs)

lemma record_roi_present:
  "map_of ikvs ''annotations'' = Some (JObj kvs) \<Longrightarrow> map_of kvs ''roi'' = Some (JArr r) \<Longrightarrow>
   record_roi (JObj ikvs) dr = Inr r"
  by (simp add: record_roi_def py_subscript_def py_get_def py_iter_def)

lemma record_roi_absent:
  "map_of ikvs ''annotations'' = Some (JObj kvs) \<Longrightarrow> map_of kvs ''roi'' = None \<Longrightarrow>
   record_roi (JObj ikvs) (JArr d) = Inr d"
  by (simp add: record_roi_def py_subscript_def py_get_def py_iter_def)

lemma multi_file_loaded:
  "json_load w p = Inr item \<Longrightarrow> record_roi item dr = Inr roi \<Longrightarrow>
   event_frames (str_to_int w) item = Inr af \<Longrightarrow>
   multi_file w vd sl dr p samples
     = Inr (samples @ map (\<lambda>start. (video_path_in vd p, start,
         (if \<exists>(s, e) \<in> set af. \<not> (start + sl - 1 < s \<or> start > e) then 1 else 0), roi))
        (py_range 0 (frame_count_of w (video_path_in vd p) - sl + 1)))"
  by (simp add: multi_file_def Let_def multi_windows_explicit)

lemma single_init_loaded:
  "json_load w p = Inr item \<Longrightarrow> event_frames (str_to_int w) item = Inr af \<Longrightarrow>
   single_init w p sl fps roi tr
     = Inr \<lparr>s_seq_len = sl, s_fps = fps, s_transform = tr, s_roi = roi,
            s_samples = map (\<lambda>start. (single_video_path p, start,
              (if \<exists>(s, e) \<in> set af. \<not> (start + sl - 1 < s \<or> start > e) then 1 else 0)))
              (py_range 0 (frame_count_of w (single_video_path p) - sl + 1))\<rparr>"
  by (simp add: single_init_def Let_def single_windows_explicit)

lemma multi_file_roi:
  assumes "multi_file w vd sl dr p samples = Inr res" "json_load w p = Inr item"
    "record_roi item dr = Inr r"
  shows "\<exists>blk. res = samples @ blk \<and> length blk = window_count w vd sl p
           \<and> list_all (\<lambda>smp. multi_roi smp = r) blk"
proof -
  from assms obtain af where
    "res = multi_windows sl af (video_path_in vd p) r
             (py_range 0 (frame_count_of w (video_path_in vd p) - sl + 1)) samples"
    by (auto simp: multi_file_def Let_def split: sum.splits)
  then show ?thesis
    by (simp add: multi_windows_map window_count_def py_range_def list_all_iff multi_roi_def)
qed

lemma loader_pairs:
  "json_load w p = Inr (JObj ikvs) \<and> map_of ikvs ''annotations'' = Some (JObj kvs)
     \<and> map_of kvs ''event_frame'' = Some (JArr (map (\<lambda>(s, e). JArr [JInt s, JInt e]) ranges)) \<longrightarrow>
     event_frames (str_to_int w) (JObj ikvs) = Inr ranges
     \<and> (map_of kvs ''roi'' = Some (JArr r) \<longrightarrow>
          record_roi (JObj ikvs) dr = Inr r
          \<and> multi_file w vd sl dr p samples
              = Inr (samples @ map (\<lambda>start. (video_path_in vd p, start,
                  (if \<exists>(s, e) \<in> set ranges. \<not> (start + sl - 1 < s \<or> start > e) then 1 else 0), r))
                 (py_range 0 (frame_count_of w (video_path_in vd p) - sl + 1))))
     \<and> (map_of kvs ''roi'' = None \<longrightarrow>
          record_roi (JObj ikvs) (JArr d) = Inr d
          \<and> multi_file w vd sl (JArr d) p samples
              = Inr (samples @ map (\<lambda>start. (video_path_in vd p, start,
                  (if \<exists>(s, e) \<in> set ranges. \<not> (start + sl - 1 < s \<or> start > e) then 1 else 0), d))
                 (py_range 0 (frame_count_of w (video_path_in vd p) - sl + 1))))
     \<and> single_init w p sl fps roi tr
         = Inr \<lparr>s_seq_len = sl, s_fps = fps, s_transform = tr, s_roi = roi,
                s_samples = map (\<lambda>start. (single_video_path p, start,
                  (if \<exists>(s, e) \<in> set ranges. \<not> (start + sl - 1 < s \<or> start > e) then 1 else 0)))
                  (py_range 0 (frame_count_of w (single_video_path p) - sl + 1))\<rparr>"
proof (intro impI, elim conjE)
  assume l: "json_load w p = Inr (JObj ikvs)"
    and a: "map_of ikvs ''annotations'' = Some (JObj kvs)"
    and e: "map_of kvs ''event_frame'' = Some (JArr (map (\<lambda>(s, e). JArr [JInt s, JInt e]) ranges))"
  have ef: "event_frames (str_to_int w) (JObj ikvs) = Inr ranges"
    using a e by (rule event_frames_pairs)
  have present: "record_roi (JObj ikvs) dr = Inr r
      \<and> multi_file w vd sl dr p samples
          = Inr (samples @ map (\<lambda>start. (video_path_in vd p, start,
              (if \<exists>(s, e) \<in> set ranges. \<not> (start + sl - 1 < s \<or> start > e) then 1 else 0), r))
             (py_range 0 (frame_count_of w (video_path_in vd p) - sl + 1)))"
    if "map_of kvs ''roi'' = Some (JArr r)"
    using record_roi_present [OF a that] multi_file_loaded [OF l record_roi_present [OF a that] ef]
    by simp
  have absent: "record_roi (JObj ikvs) (JArr d) = Inr d
      \<and> multi_file w vd sl (JArr d) p samples
          = Inr (samples @ map (\<lambda>start. (video_path_in vd p, start,
              (if \<exists>(s, e) \<in> set ranges. \<not> (start + sl - 1 < s \<or> start > e) then 1 else 0), d))
             (py_range 0 (frame_count_of w (video_path_in vd p) - sl + 1)))"
    if "map_of kvs ''roi'' = None"
    using record_roi_absent [OF a that] multi_file_loaded [OF l record_roi_absent [OF a that] ef]
    by simp
  from ef present absent single_init_loaded [OF l ef]
  show "event_frames (str_to_int w) (JObj ikvs) = Inr ranges
     \<and> (map_of kvs ''roi'' = Some (JArr r) \<longrightarrow>
          record_roi (JObj ikvs) dr = Inr r
          \<and> multi_file w vd sl dr p samples
              = Inr (samples @ map (\<lambda>start. (video_path_in vd p, start,
                  (if \<exists>(s, e) \<in> set ranges. \<not> (start + sl - 1 < s \<or> start > e) then 1 else 0), r))
                 (py_range 0 (frame_count_of w (video_path_in vd p) - sl + 1))))
     \<and> (map_of kvs ''roi'' = None \<longrightarrow>
          record_roi (JObj ikvs) (JArr d) = Inr d
          \<and> multi_file w vd sl (JArr d) p samples
              = Inr (samples @ map (\<lambda>start. (video_path_in vd p, start,
                  (if \<exists>(s, e) \<in> set ranges. \<not> (start + sl - 1 < s \<or> start > e) then 1 else 0), d))
                 (py_range 0 (frame_count_of w (video_path_in vd p) - sl + 1))))
     \<and> single_init w p sl fps roi tr
         = Inr \<lparr>s_seq_len = sl, s_fps = fps, s_transform = tr, s_roi = roi,
                s_samples = map (\<lambda>start. (single_video_path p, start,
                  (if \<exists>(s, e) \<in> set ranges. \<not> (start + sl - 1 < s \<or> start > e) then 1 else 0)))
                  (py_range 0 (frame_count_of w (single_video_path p) - sl + 1))\<rparr>"
    by blast
qed

text \<open>
  Claim C8, as amended. In the multi-video constructor the loader returns the record's event
  ranges together with an ROI, and every sample appended for the file carries this ROI: the
  elements of the record's \<^verbatim>\<open>roi\<close> list when that key is present, whatever the caller's
  default is, and the caller's default tuple unchanged when the key is absent. For a record
  whose \<^verbatim>\<open>event_frame\<close> is a list of pairs of integers the event ranges are exactly these
  pairs, and the label of every sample is computed from them. In the single-video
  constructor the ROI of the dataset is the constructor's \<^verbatim>\<open>roi\<close> argument, whether or not
  the record has a \<^verbatim>\<open>roi\<close>; the labels of its samples are computed from the record's ranges.
\<close>

theorem loader_roi:
  "(json_load w p = Inr (JObj ikvs) \<and> map_of ikvs ''annotations'' = Some (JObj kvs)
      \<and> map_of kvs ''event_frame'' = Some (JArr (map (\<lambda>(s, e). JArr [JInt s, JInt e]) ranges)) \<longrightarrow>
      event_frames (str_to_int w) (JObj ikvs) = Inr ranges
      \<and> (map_of kvs ''roi'' = Some (JArr r) \<longrightarrow>
           record_roi (JObj ikvs) dr = Inr r
           \<and> multi_file w vd sl dr p samples
               = Inr (samples @ map (\<lambda>start. (video_path_in vd p, start,
                   (if \<exists>(s, e) \<in> set ranges. \<not> (start + sl - 1 < s \<or> start > e) then 1 else 0), r))
                  (py_range 0 (frame_count_of w (video_path_in vd p) - sl + 1))))
      \<and> (map_of kvs ''roi'' = None \<longrightarrow>
           record_roi (JObj ikvs) (JArr d) = Inr d
           \<and> multi_file w vd sl (JArr d) p samples
               = Inr (samples @ map (\<lambda>start. (video_path_in vd p, start,
                   (if \<exists>(s, e) \<in> set ranges. \<not> (start + sl - 1 < s \<or> start > e) then 1 else 0), d))
                  (py_range 0 (frame_count_of w (video_path_in vd p) - sl + 1))))
      \<and> single_init w p sl fps roi tr
          = Inr \<lparr>s_seq_len = sl, s_fps = fps, s_transform = tr, s_roi = roi,
                 s_samples = map (\<lambda>start. (single_video_path p, start,
                   (if \<exists>(s, e) \<in> set ranges. \<not> (start + sl - 1 < s \<or> start > e) then 1 else 0)))
                   (py_range 0 (frame_count_of w (single_video_path p) - sl + 1))\<rparr>)
   \<and> (json_load w p = Inr (JObj ikvs) \<and> map_of ikvs ''annotations'' = Some (JObj kvs)
        \<and> (map_of kvs ''roi'' = Some (JArr r') \<or> map_of kvs ''roi'' = None \<and> dr = JArr r')
        \<and> multi_file w vd sl dr p samples = Inr res \<longrightarrow>
      (\<exists>blk. res = samples @ blk \<and> length blk = window_count w vd sl p
         \<and> list_all (\<lambda>smp. multi_roi smp = r') blk))
   \<and> (single_init w p sl fps roi tr = Inr sds \<longrightarrow> s_roi sds = roi)"
proof -
  have b: "\<exists>blk. res = samples @ blk \<and> length blk = window_count w vd sl p
         \<and> list_all (\<lambda>smp. multi_roi smp = r') blk"
    if l: "json_load w p = Inr (JObj ikvs)" and a: "map_of ikvs ''annotations'' = Some (JObj kvs)"
      and r: "map_of kvs ''roi'' = Some (JArr r') \<or> map_of kvs ''roi'' = None \<and> dr = JArr r'"
      and m: "multi_file w vd sl dr p samples = Inr res"
  proof -
    from r have "record_roi (JObj ikvs) dr = Inr r'"
      using record_roi_present [OF a] record_roi_absent [OF a] by blast
    with m l show ?thesis by (rule multi_file_roi)
  qed
  have c: "s_roi sds = roi" if "single_init w p sl fps roi tr = Inr sds"
    using that by (auto simp: single_init_def Let_def split: sum.splits)
  from loader_pairs [of w p ikvs kvs ranges r dr vd sl samples d fps roi tr] b c
  show ?thesis by blast
qed

theorem loader_roi_witness:
  "event_frames (str_to_int example_world) record_a = Inr [(5, 9)]
   \<and> record_roi record_a default_roi_value = Inr [JInt 0, JInt 0, JInt 2, JInt 2]
   \<and> multi_file example_world ''/data/video'' 8 default_roi_value ''/data/label/a.json'' []
       = Inr [(''/data/video/a.mp4'', 0, 1, [JInt 0, JInt 0, JInt 2, JInt 2]),
              (''/data/video/a.mp4'', 1, 1, [JInt 0, JInt 0, JInt 2, JInt 2]),
              (''/data/video/a.mp4'', 2, 1, [JInt 0, JInt 0, JInt 2, JInt 2]),
              (''/data/video/a.mp4'', 3, 1, [JInt 0, JInt 0, JInt 2, JInt 2]),
              (''/data/video/a.mp4'', 4, 1, [JInt 0, JInt 0, JInt 2, JInt 2])]
   \<and> record_roi record_b default_roi_value = Inr [JInt 1150, JInt 300, JInt 1600, JInt 700]
   \<and> multi_file example_world ''/data/video'' 3 default_roi_value ''/data/label/b.json'' []
       = Inr (map (\<lambda>start. (''/data/video/b.mp4'', start, 0,
                [JInt 1150, JInt 300, JInt 1600, JInt 700])) [0..11])
   \<and> single_init example_world ''/data/label/a.json'' 3 8 default_roi_value None
       = Inr \<lparr>s_seq_len = 3, s_fps = 8, s_transform = None, s_roi = default_roi_value,
              s_samples = [(''/data/video/a.mp4'', 0, 0), (''/data/video/a.mp4'', 1, 0),
                           (''/data/video/a.mp4'', 2, 0), (''/data/video/a.mp4'', 3, 1),
                           (''/data/video/a.mp4'', 4, 1), (''/data/video/a.mp4'', 5, 1),
                           (''/data/video/a.mp4'', 6, 1), (''/data/video/a.mp4'', 7, 1),
                           (''/data/video/a.mp4'', 8, 1), (''/data/video/a.mp4'', 9, 1)]\<rparr>
   \<and> (\<exists>blk. map (\<lambda>start. (''/data/video/a.mp4'', start, 1, [JInt 0, JInt 0, JInt 2, JInt 2]))
                [0, 1, 2, 3, 4] = [] @ blk
          \<and> length blk = window_count example_world ''/data/video'' 8 ''/data/label/a.json''
          \<and> list_all (\<lambda>smp. multi_roi smp = [JInt 0, JInt 0, JInt 2, JInt 2]) blk)
   \<and> s_roi (projr (single_init example_world ''/data/label/a.json'' 3 8 default_roi_value None))
       = default_roi_value"
proof -
  let ?kvs_a = "[(''event_frame'', JArr [JArr [JInt 5, JInt 9]]),
                 (''roi'', JArr [JInt 0, JInt 0, JInt 2, JInt 2])]"
  let ?kvs_b = "[(''event_frame'', JArr [])]"
  have ra: "record_a = JObj [(''annotations'', JObj ?kvs_a)]" by (simp add: record_a_def)
  have rb: "record_b = JObj [(''annotations'', JObj ?kvs_b)]" by (simp add: record_b_def)
  have ha: "json_load example_world ''/data/label/a.json'' = Inr (JObj [(''annotations'', JObj ?kvs_a)])
      \<and> map_of [(''annotations'', JObj ?kvs_a)] ''annotations'' = Some (JObj ?kvs_a)
      \<and> map_of ?kvs_a ''event_frame''
          = Some (JArr (map (\<lambda>(s, e). JArr [JInt s, JInt e]) [(5, 9)]))"
    by (simp add: ex_load ra)
  have hb: "json_load example_world ''/data/label/b.json'' = Inr (JObj [(''annotations'', JObj ?kvs_b)])
      \<and> map_of [(''annotations'', JObj ?kvs_b)] ''annotations'' = Some (JObj ?kvs_b)
      \<and> map_of ?kvs_b ''event_frame''
          = Some (JArr (map (\<lambda>(s, e). JArr [JInt s, JInt e]) []))"
    by (simp add: ex_load rb)
  have pa: "map_of ?kvs_a ''roi'' = Some (JArr [JInt 0, JInt 0, JInt 2, JInt 2])" by simp
  have pb: "map_of ?kvs_b ''roi'' = None" by simp
  note ta = loader_roi [of example_world "''/data/label/a.json''" "[(''annotations'', JObj ?kvs_a)]"
      ?kvs_a "[(5, 9)]" "[JInt 0, JInt 0, JInt 2, JInt 2]" default_roi_value "''/data/video''" 8 "[]"
      "[JInt 1150, JInt 300, JInt 1600, JInt 700]" 8 default_roi_value None, THEN conjunct1,
      THEN mp, OF ha]
  note tb = loader_roi [of example_world "''/data/label/b.json''" "[(''annotations'', JObj ?kvs_b)]"
      ?kvs_b "[]" "[]" default_roi_value "''/data/video''" 3 "[]"
      "[JInt 1150, JInt 300, JInt 1600, JInt 700]" 8 default_roi_value None, THEN conjunct1,
      THEN mp, OF hb]
  note tc = loader_roi [of example_world "''/data/label/a.json''" "[(''annotations'', JObj ?kvs_a)]"
      ?kvs_a "[(5, 9)]" "[JInt 0, JInt 0, JInt 2, JInt 2]" default_roi_value "''/data/video''" 3 "[]"
      "[JInt 1150, JInt 300, JInt 1600, JInt 700]" 8 default_roi_value None, THEN conjunct1,
      THEN mp, OF ha]
  have c1: "event_frames (str_to_int example_world) record_a = Inr [(5, 9)]"
    using ta [THEN conjunct1] by (simp add: ra)
  have c2: "record_roi record_a default_roi_value = Inr [JInt 0, JInt 0, JInt 2, JInt 2]"
    using ta [THEN conjunct2, THEN conjunct1, THEN mp, OF pa, THEN conjunct1] by (simp add: ra)
  have c3: "multi_file example_world ''/data/video'' 8 default_roi_value ''/data/label/a.json'' []
       = Inr (map (\<lambda>start. (''/data/video/a.mp4'', start, 1, [JInt 0, JInt 0, JInt 2, JInt 2]))
                [0, 1, 2, 3, 4])"
    using ta [THEN conjunct2, THEN conjunct1, THEN mp, OF pa, THEN conjunct2]
    by (simp add: ex_vpath frame_count_of_def ex_videos py_range_def upto_rec1)
  have c4: "record_roi record_b default_roi_value = Inr [JInt 1150, JInt 300, JInt 1600, JInt 700]"
    using tb [THEN conjunct2, THEN conjunct2, THEN conjunct1, THEN mp, OF pb, THEN conjunct1]
    by (simp add: rb default_roi_value_def)
  have c5: "multi_file example_world ''/data/video'' 3 default_roi_value ''/data/label/b.json'' []
       = Inr (map (\<lambda>start. (''/data/video/b.mp4'', start, 0,
                [JInt 1150, JInt 300, JInt 1600, JInt 700])) [0..11])"
    using tb [THEN conjunct2, THEN conjunct2, THEN conjunct1, THEN mp, OF pb, THEN conjunct2]
    by (simp add: ex_vpath frame_count_of_def ex_videos py_range_def default_roi_value_def)
  have c6: "single_init example_world ''/data/label/a.json'' 3 8 default_roi_value None
       = Inr \<lparr>s_seq_len = 3, s_fps = 8, s_transform = None, s_roi = default_roi_value,
              s_samples = [(''/data/video/a.mp4'', 0, 0), (''/data/video/a.mp4'', 1, 0),
                           (''/data/video/a.mp4'', 2, 0), (''/data/video/a.mp4'', 3, 1),
                           (''/data/video/a.mp4'', 4, 1), (''/data/video/a.mp4'', 5, 1),
                           (''/data/video/a.mp4'', 6, 1), (''/data/video/a.mp4'', 7, 1),
                           (''/data/video/a.mp4'', 8, 1), (''/data/video/a.mp4'', 9, 1)]\<rparr>"
    using tc [THEN conjunct2, THEN conjunct2, THEN conjunct2]
    by (simp add: ex_vpath frame_count_of_def ex_videos py_range_def upto_rec1)
  have c7: "\<exists>blk. map (\<lambda>start. (''/data/video/a.mp4'', start, 1, [JInt 0, JInt 0, JInt 2, JInt 2]))
                [0, 1, 2, 3, 4] = [] @ blk
          \<and> length blk = window_count example_world ''/data/video'' 8 ''/data/label/a.json''
          \<and> list_all (\<lambda>smp. multi_roi smp = [JInt 0, JInt 0, JInt 2, JInt 2]) blk"
    using loader_roi [where w = example_world and p = "''/data/label/a.json''"
        and ikvs = "[(''annotations'', JObj ?kvs_a)]" and kvs = ?kvs_a
        and r' = "[JInt 0, JInt 0, JInt 2, JInt 2]" and dr = default_roi_value
        and vd = "''/data/video''" and sl = 8 and samples = "[]"
        and res = "map (\<lambda>start. (''/data/video/a.mp4'', start, 1, [JInt 0, JInt 0, JInt 2, JInt 2]))
                [0, 1, 2, 3, 4]", THEN conjunct2, THEN conjunct1]
      ha pa c3
    by blast
  have c8: "s_roi (projr (single_init example_world ''/data/label/a.json'' 3 8 default_roi_value None))
       = default_roi_value"
    using loader_roi [where w = example_world and p = "''/data/label/a.json''" and sl = 3
        and fps = 8 and roi = default_roi_value and tr = None
        and sds = "projr (single_init example_world ''/data/label/a.json'' 3 8 default_roi_value None)",
        THEN conjunct2, THEN conjunct2] c6
    by simp
  from c1 c2 c3 c4 c5 c6 c7 c8 show ?thesis by simp
qed

text \<open>
  The claim as stated fails for the single-video dataset: \<^verbatim>\<open>a.json\<close> has the ROI
  \<open>[0, 0, 2, 2]\<close>, and the dataset built from it keeps the caller's \<open>(1150, 300, 1600, 700)\<close>.
\<close>

theorem loader_roi_single_counterexample:
  "record_roi record_a default_roi_value = Inr [JInt 0, JInt 0, JInt 2, JInt 2]
   \<and> map_sum id s_roi (single_init example_world ''/data/label/a.json'' 8 8 default_roi_value None)
       = Inr (JArr [JInt 1150, JInt 300, JInt 1600, JInt 700])"
  by (simp add: single_init_def ex_load ex_records Let_def default_roi_value_def)

lemma py_int_accepts: "isl (py_int int_str v) \<longleftrightarrow> \<not> int_accepts int_str v"
  by (auto simp: py_int_def int_accepts_def split: json.splits pyfloat.splits option.splits)

lemma unpack2_readable:
  "isl (py_unpack2 x) \<or> (\<exists>a b. py_unpack2 x = Inr (a, b)
      \<and> (isl (py_int int_str a) \<or> isl (py_int int_str b)))
   \<longleftrightarrow> \<not> readable_entry int_str x"
proof (cases "py_iter x")
  case (Inl err)
  then show ?thesis by (simp add: py_unpack2_def readable_entry_def)
next
  case (Inr vs)
  show ?thesis
  proof (cases "\<exists>a b. vs = [a, b]")
    case True
    then obtain a b where "vs = [a, b]" by blast
    with Inr show ?thesis
      by (auto simp: py_unpack2_def readable_entry_def py_int_accepts)
  next
    case False
    then have "length vs \<noteq> 2"
      by (metis (no_types, opaque_lifting) One_nat_def Suc_1 length_0_conv length_Suc_conv)
    with Inr False show ?thesis
      by (auto simp: py_unpack2_def readable_entry_def split: list.splits)
  qed
qed

lemma convert_ranges_readable:
  "isl (convert_ranges int_str xs) \<longleftrightarrow> \<not> list_all (readable_entry int_str) xs"
proof (induction xs)
  case Nil
  then show ?case by simp
next
  case (Cons x xs)
  show ?case
  proof (cases "readable_entry int_str x")
    case True
    with unpack2_readable [of x int_str] obtain a b where
      u: "py_unpack2 x = Inr (a, b)" and ia: "\<not> isl (py_int int_str a)" and ib: "\<not> isl (py_int int_str b)"
      by (cases "py_unpack2 x") auto
    from ia ib obtain s e where "py_int int_str a = Inr s" "py_int int_str b = Inr e"
      by (metis sum.collapse(2))
    with u True Cons.IH show ?thesis by (auto split: sum.splits)
  next
    case False
    with unpack2_readable [of x int_str] show ?thesis
      by (auto split: sum.splits)
  qed
qed

lemma event_frames_readable:
  "isl (event_frames int_str item) \<longleftrightarrow> \<not> readable_record int_str item"
  by (auto simp: event_frames_def readable_record_def py_subscript_def convert_ranges_readable
      split: json.splits option.splits sum.splits)

lemma record_roi_not_iterable:
  "map_of ikvs ''annotations'' = Some (JObj kvs) \<Longrightarrow> map_of kvs ''roi'' = Some v \<Longrightarrow>
   \<not> iterable v \<Longrightarrow> isl (record_roi (JObj ikvs) dr)"
  by (auto simp: record_roi_def py_subscript_def py_get_def py_iter_def iterable_def
      split: json.splits)

lemma multi_files_abort:
  "p \<in> set paths \<Longrightarrow> (\<And>smp. isl (multi_file w vd sl dr p smp)) \<Longrightarrow>
     isl (multi_files w vd sl dr paths samples)"
proof (induction paths arbitrary: samples)
  case Nil
  then show ?case by simp
next
  case (Cons q qs)
  show ?case
  proof (cases "multi_file w vd sl dr q samples")
    case (Inl e)
    then show ?thesis by simp
  next
    case (Inr mid)
    with Cons.prems have "q \<noteq> p"
      by (metis sum.disc(2))
    with Cons.prems have "p \<in> set qs" by simp
    from Cons.IH [OF this Cons.prems(2)] Inr show ?thesis by simp
  qed
qed

lemma multi_file_bad:
  "json_load w p = Inl err \<or> (json_load w p = Inr item \<and>
      (isl (event_frames (str_to_int w) item) \<or> isl (record_roi item dr))) \<Longrightarrow>
   isl (multi_file w vd sl dr p smp)"
  by (auto simp: multi_file_def Let_def split: sum.splits)

lemma multi_init_bad:
  assumes "json_load w p = Inl err \<or> (json_load w p = Inr item \<and>
      (isl (event_frames (str_to_int w) item) \<or> isl (record_roi item dr)))"
    and "p \<in> set (multi_json_paths w label_dir)"
  shows "isl (multi_init w label_dir sl dr tr)"
proof -
  have "isl (multi_files w (multi_video_dir label_dir) sl dr (multi_json_paths w label_dir) [])"
    using assms(2) multi_file_bad [OF assms(1)] by (rule multi_files_abort)
  then show ?thesis by (auto simp: multi_init_def Let_def split: sum.splits)
qed

text \<open>
  Claim C9, as amended. When the annotation file cannot be loaded, both constructors raise
  the error of the load. When the loaded record is not readable, that is, it is not an
  object, its \<^verbatim>\<open>annotations\<close> is missing or not an object, its \<^verbatim>\<open>event_frame\<close> is missing or
  not iterable, or an entry of \<^verbatim>\<open>event_frame\<close> does not iterate to exactly two values that
  \<^verbatim>\<open>int\<close> accepts, the single-video constructor raises (a \<^verbatim>\<open>KeyError\<close> for a missing key) and
  the multi-video constructor appends no sample for the file. The multi-video constructor
  raises also when the record has a \<^verbatim>\<open>roi\<close> that is not iterable. In each of these cases the
  multi-video constructor returns no dataset when the file is among those found. Every
  other loaded record is accepted by the single-video constructor.
\<close>

theorem bad_record_raises:
  "(json_load w p = Inl err \<longrightarrow>
      single_init w p seq_len fps roi transform = Inl err
      \<and> multi_file w vd seq_len dr p samples = Inl err
      \<and> (p \<in> set (multi_json_paths w label_dir) \<longrightarrow>
           isl (multi_init w label_dir seq_len dr transform)))
   \<and> (json_load w p = Inr item \<and> \<not> readable_record (str_to_int w) item \<longrightarrow>
      isl (single_init w p seq_len fps roi transform)
      \<and> isl (multi_file w vd seq_len dr p samples)
      \<and> (p \<in> set (multi_json_paths w label_dir) \<longrightarrow>
           isl (multi_init w label_dir seq_len dr transform)))
   \<and> (json_load w p = Inr (JObj ikvs) \<and> map_of ikvs ''annotations'' = Some (JObj kvs)
        \<and> map_of kvs ''roi'' = Some v \<and> \<not> iterable v \<longrightarrow>
      isl (multi_file w vd seq_len dr p samples)
      \<and> (p \<in> set (multi_json_paths w label_dir) \<longrightarrow>
           isl (multi_init w label_dir seq_len dr transform)))
   \<and> (json_load w p = Inr (JObj ikvs) \<and> map_of ikvs ''annotations'' = None \<longrightarrow>
      single_init w p seq_len fps roi transform = Inl (KeyError ''annotations'')
      \<and> multi_file w vd seq_len dr p samples = Inl (KeyError ''annotations''))
   \<and> (json_load w p = Inr (JObj ikvs) \<and> map_of ikvs ''annotations'' = Some (JObj kvs)
        \<and> map_of kvs ''event_frame'' = None \<longrightarrow>
      single_init w p seq_len fps roi transform = Inl (KeyError ''event_frame''))
   \<and> (json_load w p = Inr item \<and> readable_record (str_to_int w) item \<longrightarrow>
      \<not> isl (single_init w p seq_len fps roi transform))"
proof -
  have c1: "single_init w p seq_len fps roi transform = Inl err
      \<and> multi_file w vd seq_len dr p samples = Inl err
      \<and> (p \<in> set (multi_json_paths w label_dir) \<longrightarrow>
           isl (multi_init w label_dir seq_len dr transform))"
    if "json_load w p = Inl err"
    using that multi_init_bad [of w p err item dr label_dir seq_len transform]
    by (simp add: single_init_def multi_file_def)
  have c2: "isl (single_init w p seq_len fps roi transform)
      \<and> isl (multi_file w vd seq_len dr p samples)
      \<and> (p \<in> set (multi_json_paths w label_dir) \<longrightarrow>
           isl (multi_init w label_dir seq_len dr transform))"
    if l: "json_load w p = Inr item" and r: "\<not> readable_record (str_to_int w) item"
  proof -
    from r have e: "isl (event_frames (str_to_int w) item)" by (simp add: event_frames_readable)
    then have "isl (single_init w p seq_len fps roi transform)"
      using l by (auto simp: single_init_def Let_def split: sum.splits)
    moreover have "isl (multi_file w vd seq_len dr p samples)"
      by (rule multi_file_bad [where item = item]) (use l e in simp)
    moreover have "isl (multi_init w label_dir seq_len dr transform)"
      if "p \<in> set (multi_json_paths w label_dir)"
      by (rule multi_init_bad [where item = item, OF _ that]) (use l e in simp)
    ultimately show ?thesis by blast
  qed
  have c3: "isl (multi_file w vd seq_len dr p samples)
      \<and> (p \<in> set (multi_json_paths w label_dir) \<longrightarrow>
           isl (multi_init w label_dir seq_len dr transform))"
    if l: "json_load w p = Inr (JObj ikvs)" and a: "map_of ikvs ''annotations'' = Some (JObj kvs)"
      and v: "map_of kvs ''roi'' = Some v" "\<not> iterable v"
  proof -
    have e: "isl (record_roi (JObj ikvs) dr)" using a v by (rule record_roi_not_iterable)
    have "isl (multi_file w vd seq_len dr p samples)"
      by (rule multi_file_bad [where item = "JObj ikvs"]) (use l e in simp)
    moreover have "isl (multi_init w label_dir seq_len dr transform)"
      if "p \<in> set (multi_json_paths w label_dir)"
      by (rule multi_init_bad [where item = "JObj ikvs", OF _ that]) (use l e in simp)
    ultimately show ?thesis by blast
  qed
  have c4: "single_init w p seq_len fps roi transform = Inl (KeyError ''annotations'')
      \<and> multi_file w vd seq_len dr p samples = Inl (KeyError ''annotations'')"
    if "json_load w p = Inr (JObj ikvs)" "map_of ikvs ''annotations'' = None"
    using that
    by (simp add: single_init_def multi_file_def record_roi_def event_frames_def py_subscript_def)
  have c5: "single_init w p seq_len fps roi transform = Inl (KeyError ''event_frame'')"
    if "json_load w p = Inr (JObj ikvs)" "map_of ikvs ''annotations'' = Some (JObj kvs)"
      "map_of kvs ''event_frame'' = None"
    using that by (simp add: single_init_def event_frames_def py_subscript_def)
  have c6: "\<not> isl (single_init w p seq_len fps roi transform)"
    if l: "json_load w p = Inr item" and r: "readable_record (str_to_int w) item"
  proof -
    from r have "\<not> isl (event_frames (str_to_int w) item)" by (simp add: event_frames_readable)
    then show ?thesis using l by (auto simp: single_init_def Let_def split: sum.splits)
  qed
  from c1 c2 c3 c4 c5 c6 show ?thesis by blast
qed

lemma holding_fields:
  "json_load (holding item) p = Inr item"
  "str_to_int (holding item) = read_decimal"
  "glob_glob (holding item) = glob_glob example_world"
  by (simp_all add: holding_def example_world_def)

theorem bad_record_raises_witness:
  "single_init example_world ''/nowhere/label/x.json'' 8 8 default_roi_value None = Inl OSError
   \<and> multi_file example_world ''/nowhere/video'' 8 default_roi_value ''/nowhere/label/x.json'' []
       = Inl OSError
   \<and> isl (single_init (holding (JObj [(''annotations'', JObj [(''event_frame'', JInt 5)])]))
            ''/data/label/a.json'' 8 8 default_roi_value None)
   \<and> isl (single_init (holding (JObj [(''annotations'',
              JObj [(''event_frame'', JArr [JArr [JInt 5, JInt 9, JInt 12]])])]))
            ''/data/label/a.json'' 8 8 default_roi_value None)
   \<and> isl (multi_init (holding (JObj [(''annotations'',
              JObj [(''event_frame'', JArr [JArr [JInt 5, JNull]])])]))
            ''/data/label'' 8 default_roi_value None)
   \<and> isl (multi_init (holding (JObj [(''annotations'',
              JObj [(''event_frame'', JArr []), (''roi'', JNull)])]))
            ''/data/label'' 8 default_roi_value None)
   \<and> single_init (holding (JObj [])) ''/data/label/a.json'' 8 8 default_roi_value None
       = Inl (KeyError ''annotations'')
   \<and> single_init example_world ''/other/label/bad.json'' 8 8 default_roi_value None
       = Inl (KeyError ''event_frame'')
   \<and> isl (multi_init example_world ''/other/label'' 8 default_roi_value None)
   \<and> \<not> isl (single_init example_world ''/data/label/odd.json'' 8 8 default_roi_value None)"
proof -
  let ?r1 = "JObj [(''annotations'', JObj [(''event_frame'', JInt 5)])]"
  let ?r2 = "JObj [(''annotations'', JObj [(''event_frame'', JArr [JArr [JInt 5, JInt 9, JInt 12]])])]"
  let ?r3 = "JObj [(''annotations'', JObj [(''event_frame'', JArr [JArr [JInt 5, JNull]])])]"
  let ?k4 = "[(''event_frame'', JArr []), (''roi'', JNull)]"
  let ?r4 = "JObj [(''annotations'', JObj ?k4)]"
  have paths: "''/data/label/a.json'' \<in> set (multi_json_paths (holding r) ''/data/label'')" for r
    using ex_paths(1) by (simp add: multi_json_paths_def holding_fields)
  have nr: "\<not> readable_record read_decimal ?r1" "\<not> readable_record read_decimal ?r2"
    "\<not> readable_record read_decimal ?r3" "\<not> readable_record read_decimal record_bad"
    by (simp_all add: readable_record_def readable_entry_def int_accepts_def py_iter_def
        record_bad_def)
  have rd: "readable_record read_decimal record_odd"
    by (simp add: readable_record_def readable_entry_def int_accepts_def py_iter_def
        record_odd_def read_decimal_def)
  have w1: "single_init example_world ''/nowhere/label/x.json'' 8 8 default_roi_value None = Inl OSError
      \<and> multi_file example_world ''/nowhere/video'' 8 default_roi_value ''/nowhere/label/x.json'' []
          = Inl OSError"
    using bad_record_raises [of example_world "''/nowhere/label/x.json''" OSError 8 8
        default_roi_value None "''/nowhere/video''" default_roi_value "[]"] ex_load(5)
    by blast
  have w2: "isl (single_init (holding ?r1) ''/data/label/a.json'' 8 8 default_roi_value None)"
    using bad_record_raises [of "holding ?r1" "''/data/label/a.json''" _ 8 8 default_roi_value None
        _ _ _ _ ?r1] nr(1)
    by (simp add: holding_fields)
  have w3: "isl (single_init (holding ?r2) ''/data/label/a.json'' 8 8 default_roi_value None)"
    using bad_record_raises [of "holding ?r2" "''/data/label/a.json''" _ 8 8 default_roi_value None
        _ _ _ _ ?r2] nr(2)
    by (simp add: holding_fields)
  have w4: "isl (multi_init (holding ?r3) ''/data/label'' 8 default_roi_value None)"
    using bad_record_raises [of "holding ?r3" "''/data/label/a.json''" _ 8 8 default_roi_value None
        _ default_roi_value _ "''/data/label''" ?r3] nr(3) paths
    by (simp add: holding_fields)
  have w5: "isl (multi_init (holding ?r4) ''/data/label'' 8 default_roi_value None)"
    using bad_record_raises [of "holding ?r4" "''/data/label/a.json''" _ 8 8 default_roi_value None
        _ default_roi_value _ "''/data/label''" _ "[(''annotations'', JObj ?k4)]" ?k4 JNull] paths
    by (simp add: holding_fields iterable_def)
  have w6: "single_init (holding (JObj [])) ''/data/label/a.json'' 8 8 default_roi_value None
       = Inl (KeyError ''annotations'')"
    using bad_record_raises [of "holding (JObj [])" "''/data/label/a.json''" _ 8 8 default_roi_value
        None _ _ _ _ _ "[]"]
    by (simp add: holding_fields)
  have w7: "single_init example_world ''/other/label/bad.json'' 8 8 default_roi_value None
       = Inl (KeyError ''event_frame'')"
    using bad_record_raises [of example_world "''/other/label/bad.json''" _ 8 8 default_roi_value
        None _ _ _ _ _ "[(''annotations'', JObj [(''roi'', JArr [JInt 0, JInt 0, JInt 2, JInt 2])])]"
        "[(''roi'', JArr [JInt 0, JInt 0, JInt 2, JInt 2])]"]
    by (simp add: ex_load record_bad_def)
  have w8: "isl (multi_init example_world ''/other/label'' 8 default_roi_value None)"
    using bad_record_raises [of example_world "''/other/label/bad.json''" _ 8 8 default_roi_value
        None _ default_roi_value _ "''/other/label''" record_bad] nr(4)
    by (simp add: ex_load ex_paths ex_str_to_int)
  have w9: "\<not> isl (single_init example_world ''/data/label/odd.json'' 8 8 default_roi_value None)"
    using bad_record_raises [of example_world "''/data/label/odd.json''" _ 8 8 default_roi_value
        None _ _ _ _ record_odd] rd
    by (simp add: ex_load ex_str_to_int)
  from w1 w2 w3 w4 w5 w6 w7 w8 w9 show ?thesis by blast
qed

text \<open>
  The claim as stated fails for records whose required field is malformed and yet can be
  read. The only entry of \<^verbatim>\<open>event_frame\<close> in \<^verbatim>\<open>odd.json\<close> is the string \<^verbatim>\<open>"59"\<close>, not a pair: it
  is unpacked into its two characters, and the dataset is built with the range \<open>(5, 9)\<close>.
  In \<^verbatim>\<open>nolist.json\<close> the value of \<^verbatim>\<open>event_frame\<close> is an empty object, not a list: the loop over
  it ends at once, and the dataset is built without any range.
\<close>

theorem malformed_record_counterexample:
  "map_sum id s_samples
      (single_init example_world ''/data/label/odd.json'' 8 8 default_roi_value None)
     = Inr [(''/data/video/odd.mp4'', 0, 1), (''/data/video/odd.mp4'', 1, 1)]
   \<and> map_sum id s_samples
      (single_init example_world ''/data/label/nolist.json'' 8 8 default_roi_value None)
     = Inr [(''/data/video/nolist.mp4'', 0, 0), (''/data/video/nolist.mp4'', 1, 0)]"
  by (simp add: single_init_def ex_load ex_record_odd ex_records ex_str_to_int ex_vpath
      frame_count_of_def ex_videos py_range_def Let_def upto_rec1)

text \<open>
  Claim C10. Two single-video datasets constructed with the same annotation path,
  \<open>seq_len\<close>, \<open>roi\<close> and \<open>transform\<close> and different \<open>fps\<close> have the same list of samples (video
  path, start index and label at every position), or fail with the same error.
\<close>

theorem fps_irrelevant:
  "map_sum id s_samples (single_init w ann_path seq_len fps roi transform)
     = map_sum id s_samples (single_init w ann_path seq_len fps' roi transform)"
  by (simp add: single_init_def Let_def split: sum.splits)

theorem fps_irrelevant_witness:
  "map_sum id s_samples (single_init example_world ''/data/label/odd.json'' 8 8 default_roi_value None)
     = map_sum id s_samples (single_init example_world ''/data/label/odd.json'' 8 30 default_roi_value None)"
  by (rule fps_irrelevant)

section \<open>The example datasets, evaluated\<close>

lemma ex_datasets:
  "multi_init example_world ''/data/label'' 8 default_roi_value None = Inr example_multi"
  "single_init example_world ''/data/label/a.json'' 8 8 roi None = Inr (example_single roi)"
  "single_init example_world ''/data/label/odd.json'' 8 8 (JArr [JInt 0, JInt 0, JInt 2, JInt 2]) None
     = Inr example_single_odd"
  by (simp_all add: multi_init_def single_init_def ex_paths multi_file_def ex_load ex_records
      ex_str_to_int ex_record_odd ex_vpath frame_count_of_def ex_videos py_range_def upto_rec1 Let_def
      example_multi_def example_single_def example_single_odd_def)

lemma ex_resize_ok: "resize_ok example_world"
  by (simp add: resize_ok_def ex_resize nn_resize_def list_all_iff)

lemma ex_supplied:
  "supplied example_world ''/data/video/a.mp4'' 0 = [small_frame, small_frame, small_frame]"
  "supplied example_world ''/data/video/a.mp4'' 1 = [small_frame, small_frame]"
  "supplied example_world ''/data/video/a.mp4'' 4 = []"
  "supplied example_world ''/data/video/b.mp4'' 0 = []"
  "supplied example_world ''/data/video/odd.mp4'' 1 = replicate 8 small_frame"
  by (simp_all add: supplied_def ex_videos eval_nat_numeral)

lemma ex_crop:
  "crop_ok (JInt 0, JInt 0, JInt 2, JInt 2) small_frame"
  "\<not> crop_ok (JInt 1150, JInt 300, JInt 1600, JInt 700) small_frame"
  by (simp_all add: crop_ok_def crop_roi_def py_slice_bound_def py_slice_def clip_bound_def
      small_frame_def image_empty_def)

lemma ex_unpack:
  "py_unpack4 (JArr [a, b, c, d]) = Inr (a, b, c, d)"
  "py_unpack4 default_roi_value = Inr (JInt 1150, JInt 300, JInt 1600, JInt 700)"
  by (simp_all add: py_unpack4_def py_iter_def default_roi_value_def)

lemma ex_multi_transform:
  "multi_init example_world ''/data/label'' 8 default_roi_value tr
     = Inr (example_multi\<lparr>m_transform := tr\<rparr>)"
  using ex_datasets(1)
  by (auto simp: multi_init_def Let_def example_multi_def split: sum.splits)

lemma ex_index:
  "py_index (m_samples example_multi) 0
     = Inr (''/data/video/a.mp4'', 0, 1, [JInt 0, JInt 0, JInt 2, JInt 2])"
  "py_index (m_samples example_multi) 5
     = Inr (''/data/video/b.mp4'', 0, 0, [JInt 1150, JInt 300, JInt 1600, JInt 700])"
  "py_index (s_samples (example_single roi)) 0 = Inr (''/data/video/a.mp4'', 0, 1)"
  "py_index (s_samples (example_single roi)) 1 = Inr (''/data/video/a.mp4'', 1, 1)"
  "py_index (s_samples (example_single roi)) 4 = Inr (''/data/video/a.mp4'', 4, 1)"
  "py_index (s_samples example_single_odd) 1 = Inr (''/data/video/odd.mp4'', 1, 1)"
  by (simp_all add: py_index_def example_multi_def example_single_def example_single_odd_def)

section \<open>Properties of the frame sequence extractor\<close>

lemma readable_set_pos:
  "readable (cap_set_pos (VideoCapture w vpath) start) = supplied w vpath start"
  by (simp add: readable_def cap_set_pos_def VideoCapture_def supplied_def split: option.splits)

lemma cap_read_none: "readable cap = [] \<Longrightarrow> cap_read cap = (None, cap)"
  by (auto simp: readable_def cap_read_def split: if_splits)

lemma cap_read_some:
  assumes "readable cap = img # rest"
  shows "\<exists>cap'. cap_read cap = (Some img, cap') \<and> readable cap' = rest
           \<and> cap_opened cap' = cap_opened cap"
proof -
  from assms have o: "cap_opened cap" "0 \<le> cap_pos cap"
    and d: "drop (nat (cap_pos cap)) (cap_frames cap) = img # rest"
    by (auto simp: readable_def split: if_splits)
  from d have lt: "nat (cap_pos cap) < length (cap_frames cap)"
    by (metis drop_all list.distinct(1) not_le)
  from d lt have nth: "cap_frames cap ! nat (cap_pos cap) = img"
    by (metis Cons_nth_drop_Suc list.inject)
  from d lt have rest: "drop (Suc (nat (cap_pos cap))) (cap_frames cap) = rest"
    by (metis Cons_nth_drop_Suc list.inject)
  have suc: "nat (cap_pos cap + 1) = Suc (nat (cap_pos cap))" using o by simp
  from o lt have "cap_read cap = (Some img, cap\<lparr>cap_pos := cap_pos cap + 1\<rparr>)"
    by (simp add: cap_read_def nth)
  moreover have "readable (cap\<lparr>cap_pos := cap_pos cap + 1\<rparr>) = rest"
    using o rest by (simp add: readable_def suc)
  ultimately show ?thesis by auto
qed

lemma process_frame_ok:
  "crop_ok roi4 img \<Longrightarrow>
     process_frame w roi4 img = Inr (to_tensor (cvtColor_BGR2RGB (patch_of w roi4 img)))"
  by (auto simp: crop_ok_def process_frame_def resize256_def patch_of_def split: sum.splits)

lemma process_frame_bad: "\<not> crop_ok roi4 img \<Longrightarrow> isl (process_frame w roi4 img)"
  by (auto simp: crop_ok_def process_frame_def resize256_def split: sum.splits)

lemma read_frames_ok:
  "list_all (crop_ok roi4) (take n (readable cap)) \<Longrightarrow>
     \<exists>cap'. read_frames w roi4 n cap frames
        = (Inr (frames @ map (\<lambda>img. to_tensor (cvtColor_BGR2RGB (patch_of w roi4 img)))
                           (take n (readable cap))), cap')"
proof (induction n arbitrary: cap frames)
  case 0
  then show ?case by simp
next
  case (Suc n)
  show ?case
  proof (cases "readable cap")
    case Nil
    then show ?thesis by (simp add: cap_read_none)
  next
    case (Cons img rest)
    from cap_read_some [OF Cons] obtain cap1 where
      r: "cap_read cap = (Some img, cap1)" and rd: "readable cap1 = rest" by blast
    from Suc.prems Cons have ok: "crop_ok roi4 img" and okr: "list_all (crop_ok roi4) (take n rest)"
      by simp_all
    from Suc.IH [of cap1 "frames @ [to_tensor (cvtColor_BGR2RGB (patch_of w roi4 img))]"] okr rd
    obtain cap' where "read_frames w roi4 n cap1 (frames @ [to_tensor (cvtColor_BGR2RGB (patch_of w roi4 img))])
        = (Inr ((frames @ [to_tensor (cvtColor_BGR2RGB (patch_of w roi4 img))])
             @ map (\<lambda>img. to_tensor (cvtColor_BGR2RGB (patch_of w roi4 img))) (take n rest)), cap')"
      by auto
    then show ?thesis
      by (simp add: r process_frame_ok [OF ok] Cons)
  qed
qed

lemma map_length_const:
  "list_all (\<lambda>x. f x = c) xs \<Longrightarrow> map f xs = replicate (length xs) c"
  by (induction xs) simp_all

lemma patch_dims:
  assumes "resize_ok w" "crop_ok roi4 img"
  shows "length (patch_of w roi4 img) = 256
       \<and> list_all (\<lambda>row. length row = 256) (patch_of w roi4 img)"
  using assms by (auto simp: resize_ok_def crop_ok_def patch_of_def split: sum.splits)

lemma to_tensor_shape:
  assumes "length patch = 256" "list_all (\<lambda>row. length row = 256) patch"
  shows "tensor_shape (to_tensor (cvtColor_BGR2RGB patch))
           = replicate 3 (replicate 256 256)"
proof -
  have "map length (plane ch (cvtColor_BGR2RGB patch)) = replicate 256 256" for ch
  proof -
    have "map length (plane ch (cvtColor_BGR2RGB patch)) = map length patch"
      by (simp add: plane_def cvtColor_BGR2RGB_def comp_def)
    also have "\<dots> = replicate 256 256" using map_length_const [OF assms(2)] assms(1) by simp
    finally show ?thesis .
  qed
  then show ?thesis by (simp add: tensor_shape_def to_tensor_def numeral_3_eq_3)
qed

lemma to_tensor_has_shape:
  assumes "length patch = 256" "list_all (\<lambda>row. length row = 256) patch"
  shows "length (to_tensor (cvtColor_BGR2RGB patch)) = 3 \<and>
     list_all (\<lambda>pl. length pl = 256 \<and> list_all (\<lambda>row. length row = 256) pl)
       (to_tensor (cvtColor_BGR2RGB patch))"
  using assms
  by (simp add: to_tensor_def plane_def cvtColor_BGR2RGB_def list_all_iff)

lemma byte_unit: "(0::real) \<le> unsigned (b :: 8 word) \<and> (unsigned b :: real) \<le> 255"
proof -
  have "unat b < 2 ^ 8" using unsigned_less [of b] by simp
  then have "unat b \<le> 255" by simp
  then have "real (unat b) \<le> real 255" by (simp only: of_nat_le_iff)
  moreover have "0 \<le> real (unat b)" by (rule of_nat_0_le_iff)
  ultimately show ?thesis by (simp add: of_nat_unat)
qed

lemma to_tensor_unit:
  "list_all (list_all (list_all (\<lambda>x. 0 \<le> x \<and> x \<le> 1))) (to_tensor patch)"
  by (simp add: to_tensor_def plane_def list_all_iff byte_unit)

lemma to_tensor_rgb: "rgb_of_patch (to_tensor (cvtColor_BGR2RGB patch)) patch"
  by (simp add: rgb_of_patch_def to_tensor_def plane_def cvtColor_BGR2RGB_def comp_def
      case_prod_unfold)

lemma torch_stack_same:
  "frames \<noteq> [] \<Longrightarrow> list_all (\<lambda>t. tensor_shape t = s) frames \<Longrightarrow> torch_stack frames = Inr frames"
  by (cases frames) (auto simp: torch_stack_def list_all_iff)

lemma read_and_stack_ok:
  assumes ok: "resize_ok w"
    and fin: "fin = take (nat seq_len) (readable cap)"
    and ne: "fin \<noteq> []"
    and crops: "list_all (crop_ok roi4) fin"
  shows "fst (read_and_stack w roi4 seq_len transform label cap)
           = apply_transform transform
               (map (\<lambda>img. to_tensor (cvtColor_BGR2RGB (patch_of w roi4 img))) fin) label"
proof -
  let ?seq = "map (\<lambda>img. to_tensor (cvtColor_BGR2RGB (patch_of w roi4 img))) fin"
  from read_frames_ok [of roi4 "nat seq_len" cap w "[]"] crops fin
  obtain cap' where r: "read_frames w roi4 (nat seq_len) cap [] = (Inr ?seq, cap')" by auto
  have "tensor_shape (to_tensor (cvtColor_BGR2RGB (patch_of w roi4 img)))
      = replicate 3 (replicate 256 256)" if "img \<in> set fin" for img
  proof -
    from that crops have "crop_ok roi4 img" by (simp add: list_all_iff)
    from patch_dims [OF ok this] show ?thesis by (intro to_tensor_shape) simp_all
  qed
  then have "list_all (\<lambda>t. tensor_shape t = replicate 3 (replicate 256 256)) ?seq"
    by (simp add: list_all_iff)
  with ne have "torch_stack ?seq = Inr ?seq" by (intro torch_stack_same) simp_all
  with r show ?thesis by (simp add: read_and_stack_def stack_and_return_def)
qed

lemma sequence_props:
  assumes ok: "resize_ok w" and crops: "list_all (crop_ok roi4) fin"
  shows "has_shape (map (\<lambda>img. to_tensor (cvtColor_BGR2RGB (patch_of w roi4 img))) fin) (length fin)
       \<and> in_unit_range (map (\<lambda>img. to_tensor (cvtColor_BGR2RGB (patch_of w roi4 img))) fin)
       \<and> list_all2 (\<lambda>t img. rgb_of_patch t (patch_of w roi4 img))
            (map (\<lambda>img. to_tensor (cvtColor_BGR2RGB (patch_of w roi4 img))) fin) fin"
proof -
  have "length (to_tensor (cvtColor_BGR2RGB (patch_of w roi4 img))) = 3 \<and>
     list_all (\<lambda>pl. length pl = 256 \<and> list_all (\<lambda>row. length row = 256) pl)
       (to_tensor (cvtColor_BGR2RGB (patch_of w roi4 img)))" if "img \<in> set fin" for img
  proof -
    from that crops have "crop_ok roi4 img" by (simp add: list_all_iff)
    from patch_dims [OF ok this] show ?thesis by (intro to_tensor_has_shape) simp_all
  qed
  then have "has_shape (map (\<lambda>img. to_tensor (cvtColor_BGR2RGB (patch_of w roi4 img))) fin) (length fin)"
    unfolding has_shape_def by (simp add: list_all_iff)
  moreover have "in_unit_range (map (\<lambda>img. to_tensor (cvtColor_BGR2RGB (patch_of w roi4 img))) fin)"
    unfolding in_unit_range_def using to_tensor_unit by (simp add: list_all_iff)
  moreover have "list_all2 (\<lambda>t img. rgb_of_patch t (patch_of w roi4 img))
            (map (\<lambda>img. to_tensor (cvtColor_BGR2RGB (patch_of w roi4 img))) fin) fin"
    by (simp add: list_all2_map1 list_all2_same to_tensor_rgb)
  ultimately show ?thesis by blast
qed

lemma multi_getitem_unfold:
  "py_index (m_samples mds) idx = Inr (vpath, start, label, roi) \<Longrightarrow>
   py_unpack4 (JArr roi) = Inr roi4 \<Longrightarrow>
   multi_getitem w mds idx = read_and_stack w roi4 (m_seq_len mds) (m_transform mds) label
                               (cap_set_pos (VideoCapture w vpath) start)"
  by (simp add: multi_getitem_def)

lemma single_getitem_unfold:
  "py_index (s_samples sds) idx = Inr (vpath, start, label) \<Longrightarrow>
   py_unpack4 (s_roi sds) = Inr roi4 \<Longrightarrow>
   single_getitem w sds idx = read_and_stack w roi4 (s_seq_len sds) (s_transform sds) label
                               (cap_set_pos (VideoCapture w vpath) start)"
  by (simp add: single_getitem_def Let_def)

lemma extract_props:
  assumes ok: "resize_ok w"
    and fin: "fin = take (nat seq_len) (supplied w vpath start)"
    and ne: "fin \<noteq> []"
    and crops: "list_all (crop_ok roi4) fin"
  shows "\<exists>seq. has_shape seq (min (nat seq_len) (length (supplied w vpath start)))
           \<and> in_unit_range seq
           \<and> list_all2 (\<lambda>t img. rgb_of_patch t (patch_of w roi4 img)) seq fin
           \<and> fst (read_and_stack w roi4 seq_len transform label
                    (cap_set_pos (VideoCapture w vpath) start))
               = apply_transform transform seq label"
proof -
  let ?seq = "map (\<lambda>img. to_tensor (cvtColor_BGR2RGB (patch_of w roi4 img))) fin"
  have len: "length fin = min (nat seq_len) (length (supplied w vpath start))"
    by (simp add: fin min.commute)
  have "fst (read_and_stack w roi4 seq_len transform label
                    (cap_set_pos (VideoCapture w vpath) start))
          = apply_transform transform ?seq label"
    using ok _ ne crops by (rule read_and_stack_ok) (simp add: fin readable_set_pos)
  with sequence_props [OF ok crops] len show ?thesis by metis
qed

lemma read_and_stack_empty:
  assumes "take (nat seq_len) (readable cap) = []"
  shows "fst (read_and_stack w roi4 seq_len transform label cap) = Inl RuntimeError"
proof -
  from read_frames_ok [of roi4 "nat seq_len" cap w "[]"] assms
  obtain cap' where "read_frames w roi4 (nat seq_len) cap [] = (Inr [], cap')" by auto
  then show ?thesis
    by (simp add: read_and_stack_def stack_and_return_def torch_stack_def)
qed

lemma read_and_stack_released:
  assumes "list_all (crop_ok roi4) (take (nat seq_len) (readable cap))"
  shows "\<exists>cap'. snd (read_and_stack w roi4 seq_len transform label cap) = Some cap'
           \<and> \<not> cap_opened cap'"
proof -
  from read_frames_ok [OF assms, of w "[]"]
  obtain frames cap' where "read_frames w roi4 (nat seq_len) cap [] = (Inr frames, cap')" by auto
  then show ?thesis by (simp add: read_and_stack_def cap_release_def)
qed

lemma read_and_stack_returns:
  assumes "fst (read_and_stack w roi4 seq_len transform label cap) = Inr v"
  shows "\<exists>cap'. snd (read_and_stack w roi4 seq_len transform label cap) = Some cap'
           \<and> \<not> cap_opened cap'"
  using assms
  by (auto simp: read_and_stack_def cap_release_def split: prod.splits sum.splits)

lemma process_frame_projr:
  "crop_ok roi4 img \<Longrightarrow>
     projr (process_frame w roi4 img) = to_tensor (cvtColor_BGR2RGB (patch_of w roi4 img))"
  by (simp add: process_frame_ok)

lemma short_read_core:
  assumes ok: "resize_ok w"
    and ne: "supplied w vpath start \<noteq> []"
    and short: "length (supplied w vpath start) < nat seq_len"
    and crops: "list_all (crop_ok roi4) (supplied w vpath start)"
  shows "fst (read_and_stack w roi4 seq_len transform label
                (cap_set_pos (VideoCapture w vpath) start))
           = apply_transform transform
               (map (\<lambda>img. projr (process_frame w roi4 img)) (supplied w vpath start)) label"
proof -
  have fin: "supplied w vpath start
      = take (nat seq_len) (readable (cap_set_pos (VideoCapture w vpath) start))"
    using short by (simp add: readable_set_pos)
  have eq: "map (\<lambda>img. projr (process_frame w roi4 img)) (supplied w vpath start)
      = map (\<lambda>img. to_tensor (cvtColor_BGR2RGB (patch_of w roi4 img))) (supplied w vpath start)"
    using crops by (intro map_cong refl) (simp add: list_all_iff process_frame_projr)
  show ?thesis unfolding eq by (rule read_and_stack_ok [OF ok fin ne crops])
qed

text \<open>
  Claim C5, as amended. Let the decoder supply \<open>k\<close> frames from the sample's start, with
  \<open>1 \<le> k \<le> seq_len\<close> (the reads stop at the first one that fails), let every ROI crop have
  rows and columns, and let the resize return 256 by 256 pixels. Then the sequence that the
  access stacks has shape \<open>(k, 3, 256, 256)\<close>, where \<open>k\<close> is \<open>seq_len\<close> whenever the decoder can
  supply that many frames; each of its elements lies in \<open>[0, 1]\<close> (as the exact quotient of
  a byte by 255); frame by frame it holds the red, the green and the blue plane of the
  resized BGR patch, in this order; and the access returns this sequence, passed through
  the transform when there is one, with the label.
\<close>

theorem extractor_shape:
  "resize_ok w \<Longrightarrow>
   (py_index (m_samples mds) idx = Inr (vpath, start, label, roi)
      \<and> py_unpack4 (JArr roi) = Inr roi4
      \<and> fin = take (nat (m_seq_len mds)) (supplied w vpath start)
      \<and> fin \<noteq> [] \<and> list_all (crop_ok roi4) fin \<longrightarrow>
      (\<exists>seq. has_shape seq (min (nat (m_seq_len mds)) (length (supplied w vpath start)))
         \<and> in_unit_range seq
         \<and> list_all2 (\<lambda>t img. rgb_of_patch t (patch_of w roi4 img)) seq fin
         \<and> fst (multi_getitem w mds idx) = apply_transform (m_transform mds) seq label))
   \<and> (py_index (s_samples sds) idx' = Inr (vpath', start', label')
      \<and> py_unpack4 (s_roi sds) = Inr roi4'
      \<and> fin' = take (nat (s_seq_len sds)) (supplied w vpath' start')
      \<and> fin' \<noteq> [] \<and> list_all (crop_ok roi4') fin' \<longrightarrow>
      (\<exists>seq. has_shape seq (min (nat (s_seq_len sds)) (length (supplied w vpath' start')))
         \<and> in_unit_range seq
         \<and> list_all2 (\<lambda>t img. rgb_of_patch t (patch_of w roi4' img)) seq fin'
         \<and> fst (single_getitem w sds idx') = apply_transform (s_transform sds) seq label'))"
proof -
  assume ok: "resize_ok w"
  have m: "\<exists>seq. has_shape seq (min (nat (m_seq_len mds)) (length (supplied w vpath start)))
         \<and> in_unit_range seq
         \<and> list_all2 (\<lambda>t img. rgb_of_patch t (patch_of w roi4 img)) seq fin
         \<and> fst (multi_getitem w mds idx) = apply_transform (m_transform mds) seq label"
    if "py_index (m_samples mds) idx = Inr (vpath, start, label, roi)"
      "py_unpack4 (JArr roi) = Inr roi4"
      "fin = take (nat (m_seq_len mds)) (supplied w vpath start)"
      "fin \<noteq> []" "list_all (crop_ok roi4) fin"
    unfolding multi_getitem_unfold [OF that(1,2)]
    using ok that(3,4,5) by (rule extract_props)
  have s: "\<exists>seq. has_shape seq (min (nat (s_seq_len sds)) (length (supplied w vpath' start')))
         \<and> in_unit_range seq
         \<and> list_all2 (\<lambda>t img. rgb_of_patch t (patch_of w roi4' img)) seq fin'
         \<and> fst (single_getitem w sds idx') = apply_transform (s_transform sds) seq label'"
    if "py_index (s_samples sds) idx' = Inr (vpath', start', label')"
      "py_unpack4 (s_roi sds) = Inr roi4'"
      "fin' = take (nat (s_seq_len sds)) (supplied w vpath' start')"
      "fin' \<noteq> []" "list_all (crop_ok roi4') fin'"
    unfolding single_getitem_unfold [OF that(1,2)]
    using ok that(3,4,5) by (rule extract_props)
  from m s show ?thesis by blast
qed

theorem extractor_shape_witness:
  "resize_ok example_world
   \<and> (\<exists>seq. has_shape seq 3 \<and> in_unit_range seq
         \<and> list_all2 (\<lambda>t img. rgb_of_patch t
               (patch_of example_world (JInt 0, JInt 0, JInt 2, JInt 2) img)) seq
               [small_frame, small_frame, small_frame]
         \<and> fst (multi_getitem example_world example_multi 0) = Inr (seq, 1))
   \<and> (\<exists>seq. has_shape seq 8 \<and> in_unit_range seq
         \<and> list_all2 (\<lambda>t img. rgb_of_patch t
               (patch_of example_world (JInt 0, JInt 0, JInt 2, JInt 2) img)) seq
               (replicate 8 small_frame)
         \<and> fst (single_getitem example_world example_single_odd 1) = Inr (seq, 1))"
proof -
  have u: "py_unpack4 (s_roi example_single_odd) = Inr (JInt 0, JInt 0, JInt 2, JInt 2)"
    by (simp add: example_single_odd_def ex_unpack)
  have f1: "[small_frame, small_frame, small_frame]
      = take (nat (m_seq_len example_multi)) (supplied example_world ''/data/video/a.mp4'' 0)"
    by (simp add: example_multi_def ex_supplied)
  have f2: "replicate 8 small_frame
      = take (nat (s_seq_len example_single_odd)) (supplied example_world ''/data/video/odd.mp4'' 1)"
    by (simp add: example_single_odd_def ex_supplied)
  have c1: "list_all (crop_ok (JInt 0, JInt 0, JInt 2, JInt 2)) [small_frame, small_frame, small_frame]"
    by (simp add: ex_crop)
  have c2: "list_all (crop_ok (JInt 0, JInt 0, JInt 2, JInt 2)) (replicate 8 small_frame)"
    by (simp add: list_all_iff ex_crop)
  have n2: "replicate 8 small_frame \<noteq> []" by simp
  have t: "m_transform example_multi = None" "s_transform example_single_odd = None"
    "m_seq_len example_multi = 8" "s_seq_len example_single_odd = 8"
    by (simp_all add: example_multi_def example_single_odd_def)
  have k: "min (nat (m_seq_len example_multi))
        (length (supplied example_world ''/data/video/a.mp4'' 0)) = 3"
    "min (nat (s_seq_len example_single_odd))
        (length (supplied example_world ''/data/video/odd.mp4'' 1)) = 8"
    by (simp_all add: t ex_supplied)
  have a: "apply_transform (m_transform example_multi) seq 1 = Inr (seq, 1)"
    "apply_transform (s_transform example_single_odd) seq 1 = Inr (seq, 1)" for seq
    by (simp_all add: t apply_transform_def)
  note th = extractor_shape [OF ex_resize_ok, of example_multi 0 "''/data/video/a.mp4''" 0 1
      "[JInt 0, JInt 0, JInt 2, JInt 2]" "(JInt 0, JInt 0, JInt 2, JInt 2)"
      "[small_frame, small_frame, small_frame]"
      example_single_odd 1 "''/data/video/odd.mp4''" 1 1 "(JInt 0, JInt 0, JInt 2, JInt 2)"
      "replicate 8 small_frame", unfolded k a]
  have m: "\<exists>seq. has_shape seq 3 \<and> in_unit_range seq
         \<and> list_all2 (\<lambda>t img. rgb_of_patch t
               (patch_of example_world (JInt 0, JInt 0, JInt 2, JInt 2) img)) seq
               [small_frame, small_frame, small_frame]
         \<and> fst (multi_getitem example_world example_multi 0) = Inr (seq, 1)"
    using th [THEN conjunct1] ex_index(1) ex_unpack(1) f1 c1 by blast
  have sg: "\<exists>seq. has_shape seq 8 \<and> in_unit_range seq
         \<and> list_all2 (\<lambda>t img. rgb_of_patch t
               (patch_of example_world (JInt 0, JInt 0, JInt 2, JInt 2) img)) seq
               (replicate 8 small_frame)
         \<and> fst (single_getitem example_world example_single_odd 1) = Inr (seq, 1)"
    using th [THEN conjunct2] ex_index(6) u f2 c2 n2 by blast
  from ex_resize_ok m sg show ?thesis by blast
qed

text \<open>
  The claim as stated fails for \<open>k = 0\<close>: sample 4 of \<^verbatim>\<open>a.mp4\<close> starts behind the three frames
  the decoder can read, the list of frames stays empty, and the stacking raises; no tensor
  of shape \<open>(0, 3, 256, 256)\<close> is returned. It also fails for the returned tensor when a
  transform is given, which is whatever the transform returns.
\<close>

theorem extractor_shape_counterexample:
  "single_init example_world ''/data/label/a.json'' 8 8 (JArr [JInt 0, JInt 0, JInt 2, JInt 2]) None
     = Inr (example_single (JArr [JInt 0, JInt 0, JInt 2, JInt 2]))
   \<and> supplied example_world ''/data/video/a.mp4'' 4 = []
   \<and> fst (single_getitem example_world (example_single (JArr [JInt 0, JInt 0, JInt 2, JInt 2])) 4)
       = Inl RuntimeError
   \<and> multi_init example_world ''/data/label'' 8 default_roi_value (Some constant_transform)
       = Inr (example_multi\<lparr>m_transform := Some constant_transform\<rparr>)
   \<and> fst (multi_getitem example_world (example_multi\<lparr>m_transform := Some constant_transform\<rparr>) 0)
       = Inr ([[[[2]]]], 1)
   \<and> \<not> has_shape [[[[2]]]] 3 \<and> \<not> in_unit_range [[[[2]]]]"
proof -
  have u: "py_unpack4 (s_roi (example_single (JArr [JInt 0, JInt 0, JInt 2, JInt 2])))
      = Inr (JInt 0, JInt 0, JInt 2, JInt 2)"
    by (simp add: example_single_def ex_unpack)
  have zero: "fst (single_getitem example_world
      (example_single (JArr [JInt 0, JInt 0, JInt 2, JInt 2])) 4) = Inl RuntimeError"
    unfolding single_getitem_unfold [OF ex_index(5) u]
    by (rule read_and_stack_empty) (simp add: readable_set_pos ex_supplied)
  have i: "py_index (m_samples (example_multi\<lparr>m_transform := Some constant_transform\<rparr>)) 0
     = Inr (''/data/video/a.mp4'', 0, 1, [JInt 0, JInt 0, JInt 2, JInt 2])"
    using ex_index(1) by simp
  have fin: "[small_frame, small_frame, small_frame]
      = take (nat 8) (readable (cap_set_pos (VideoCapture example_world ''/data/video/a.mp4'') 0))"
    by (simp add: readable_set_pos ex_supplied)
  have "fst (read_and_stack example_world (JInt 0, JInt 0, JInt 2, JInt 2) 8
          (Some constant_transform) 1
          (cap_set_pos (VideoCapture example_world ''/data/video/a.mp4'') 0))
      = apply_transform (Some constant_transform)
          (map (\<lambda>img. to_tensor (cvtColor_BGR2RGB
             (patch_of example_world (JInt 0, JInt 0, JInt 2, JInt 2) img)))
             [small_frame, small_frame, small_frame]) 1"
    using ex_resize_ok fin by (rule read_and_stack_ok) (simp_all add: ex_crop)
  then have tr: "fst (multi_getitem example_world
      (example_multi\<lparr>m_transform := Some constant_transform\<rparr>) 0) = Inr ([[[[2]]]], 1)"
    unfolding multi_getitem_unfold [OF i ex_unpack(1)]
    by (simp add: example_multi_def apply_transform_def constant_transform_def)
  have sh: "\<not> has_shape [[[[2]]]] 3" "\<not> in_unit_range [[[[2]]]]"
    by (simp_all add: has_shape_def in_unit_range_def)
  from ex_datasets(2) ex_supplied(3) zero ex_multi_transform tr sh show ?thesis by blast
qed

text \<open>
  Claim C6, as amended. When the decoder supplies \<open>k\<close> frames with \<open>1 \<le> k < seq_len\<close> (every ROI
  crop having rows and columns, the resize returning 256 by 256 pixels), the extractor
  stops at the first failed read and returns the stack of exactly the \<open>k\<close> frames it read,
  processed, passed through the transform when there is one: without a transform the call
  raises nothing and reports nothing, and the caller receives a sequence of \<open>k < seq_len\<close>
  elements.
\<close>

theorem short_read_truncates:
  "resize_ok w \<Longrightarrow>
   (py_index (m_samples mds) idx = Inr (vpath, start, label, roi)
      \<and> py_unpack4 (JArr roi) = Inr roi4
      \<and> supplied w vpath start \<noteq> []
      \<and> length (supplied w vpath start) < nat (m_seq_len mds)
      \<and> list_all (crop_ok roi4) (supplied w vpath start) \<longrightarrow>
      fst (multi_getitem w mds idx)
        = apply_transform (m_transform mds)
            (map (\<lambda>img. projr (process_frame w roi4 img)) (supplied w vpath start)) label
      \<and> (m_transform mds = None \<longrightarrow>
           fst (multi_getitem w mds idx)
             = Inr (map (\<lambda>img. projr (process_frame w roi4 img)) (supplied w vpath start), label)))
   \<and> (py_index (s_samples sds) idx' = Inr (vpath', start', label')
      \<and> py_unpack4 (s_roi sds) = Inr roi4'
      \<and> supplied w vpath' start' \<noteq> []
      \<and> length (supplied w vpath' start') < nat (s_seq_len sds)
      \<and> list_all (crop_ok roi4') (supplied w vpath' start') \<longrightarrow>
      fst (single_getitem w sds idx')
        = apply_transform (s_transform sds)
            (map (\<lambda>img. projr (process_frame w roi4' img)) (supplied w vpath' start')) label'
      \<and> (s_transform sds = None \<longrightarrow>
           fst (single_getitem w sds idx')
             = Inr (map (\<lambda>img. projr (process_frame w roi4' img)) (supplied w vpath' start'), label')))"
proof -
  assume ok: "resize_ok w"
  have m: "fst (multi_getitem w mds idx)
        = apply_transform (m_transform mds)
            (map (\<lambda>img. projr (process_frame w roi4 img)) (supplied w vpath start)) label"
    if "py_index (m_samples mds) idx = Inr (vpath, start, label, roi)"
      "py_unpack4 (JArr roi) = Inr roi4"
      "supplied w vpath start \<noteq> []"
      "length (supplied w vpath start) < nat (m_seq_len mds)"
      "list_all (crop_ok roi4) (supplied w vpath start)"
    unfolding multi_getitem_unfold [OF that(1,2)]
    using ok that(3,4,5) by (rule short_read_core)
  have s: "fst (single_getitem w sds idx')
        = apply_transform (s_transform sds)
            (map (\<lambda>img. projr (process_frame w roi4' img)) (supplied w vpath' start')) label'"
    if "py_index (s_samples sds) idx' = Inr (vpath', start', label')"
      "py_unpack4 (s_roi sds) = Inr roi4'"
      "supplied w vpath' start' \<noteq> []"
      "length (supplied w vpath' start') < nat (s_seq_len sds)"
      "list_all (crop_ok roi4') (supplied w vpath' start')"
    unfolding single_getitem_unfold [OF that(1,2)]
    using ok that(3,4,5) by (rule short_read_core)
  have n: "tr = None \<Longrightarrow> apply_transform tr sq lb = Inr (sq, lb)" for tr sq lb
    by (simp add: apply_transform_def)
  from m s n show ?thesis by metis
qed

theorem short_read_truncates_witness:
  "resize_ok example_world
   \<and> fst (multi_getitem example_world example_multi 0)
       = Inr (map (\<lambda>img. projr (process_frame example_world (JInt 0, JInt 0, JInt 2, JInt 2) img))
                [small_frame, small_frame, small_frame], 1)
   \<and> fst (single_getitem example_world (example_single (JArr [JInt 0, JInt 0, JInt 2, JInt 2])) 1)
       = Inr (map (\<lambda>img. projr (process_frame example_world (JInt 0, JInt 0, JInt 2, JInt 2) img))
                [small_frame, small_frame], 1)"
proof -
  have u: "py_unpack4 (s_roi (example_single (JArr [JInt 0, JInt 0, JInt 2, JInt 2])))
      = Inr (JInt 0, JInt 0, JInt 2, JInt 2)"
    by (simp add: example_single_def ex_unpack)
  have h: "supplied example_world ''/data/video/a.mp4'' 0 \<noteq> []"
    "length (supplied example_world ''/data/video/a.mp4'' 0) < nat (m_seq_len example_multi)"
    "list_all (crop_ok (JInt 0, JInt 0, JInt 2, JInt 2)) (supplied example_world ''/data/video/a.mp4'' 0)"
    "supplied example_world ''/data/video/a.mp4'' 1 \<noteq> []"
    "length (supplied example_world ''/data/video/a.mp4'' 1)
       < nat (s_seq_len (example_single (JArr [JInt 0, JInt 0, JInt 2, JInt 2])))"
    "list_all (crop_ok (JInt 0, JInt 0, JInt 2, JInt 2)) (supplied example_world ''/data/video/a.mp4'' 1)"
    "m_transform example_multi = None"
    "s_transform (example_single (JArr [JInt 0, JInt 0, JInt 2, JInt 2])) = None"
    by (simp_all add: ex_supplied ex_crop example_multi_def example_single_def)
  note th = short_read_truncates [OF ex_resize_ok, of example_multi 0 "''/data/video/a.mp4''" 0 1
      "[JInt 0, JInt 0, JInt 2, JInt 2]" "(JInt 0, JInt 0, JInt 2, JInt 2)"
      "example_single (JArr [JInt 0, JInt 0, JInt 2, JInt 2])" 1 "''/data/video/a.mp4''" 1 1
      "(JInt 0, JInt 0, JInt 2, JInt 2)"]
  have m: "fst (multi_getitem example_world example_multi 0)
       = Inr (map (\<lambda>img. projr (process_frame example_world (JInt 0, JInt 0, JInt 2, JInt 2) img))
                (supplied example_world ''/data/video/a.mp4'' 0), 1)"
    using th [THEN conjunct1] ex_index(1) ex_unpack(1) h(1,2,3,7) by blast
  have sg: "fst (single_getitem example_world (example_single (JArr [JInt 0, JInt 0, JInt 2, JInt 2])) 1)
       = Inr (map (\<lambda>img. projr (process_frame example_world (JInt 0, JInt 0, JInt 2, JInt 2) img))
                (supplied example_world ''/data/video/a.mp4'' 1), 1)"
    using th [THEN conjunct2] ex_index(4) u h(4,5,6,8) by blast
  from ex_resize_ok m sg show ?thesis unfolding ex_supplied by blast
qed

text \<open>
  The claim as stated fails when no frame at all can be read: the video \<^verbatim>\<open>b.mp4\<close> reports 14
  frames and the decoder reads none, so that the access to its first sample raises in the
  stacking.
\<close>

theorem short_read_zero_counterexample:
  "multi_init example_world ''/data/label'' 8 default_roi_value None = Inr example_multi
   \<and> supplied example_world ''/data/video/b.mp4'' 0 = []
   \<and> fst (multi_getitem example_world example_multi 5) = Inl RuntimeError"
proof -
  have "fst (multi_getitem example_world example_multi 5) = Inl RuntimeError"
    unfolding multi_getitem_unfold [OF ex_index(2) ex_unpack(2) [unfolded default_roi_value_def]]
    by (rule read_and_stack_empty) (simp add: readable_set_pos ex_supplied)
  with ex_datasets(1) ex_supplied(4) show ?thesis by blast
qed

text \<open>
  Claim C7, as amended. Every get-by-index access that returns a value has released the
  decoder handle; and so has every access whose read loop ends without an exception, that
  is, with \<open>seq_len\<close> frames read or at the first failed read, every ROI crop of a frame read
  having rows and columns: the release then precedes the stacking and the transform,
  whether or not these raise.
\<close>

theorem handle_released:
  "(fst (multi_getitem w mds idx) = Inr v \<longrightarrow>
      (\<exists>cap. snd (multi_getitem w mds idx) = Some cap \<and> \<not> cap_opened cap))
   \<and> (fst (single_getitem w sds idx') = Inr v' \<longrightarrow>
      (\<exists>cap. snd (single_getitem w sds idx') = Some cap \<and> \<not> cap_opened cap))
   \<and> (py_index (m_samples mds) idx = Inr (vpath, start, label, roi)
      \<and> py_unpack4 (JArr roi) = Inr roi4
      \<and> list_all (crop_ok roi4) (take (nat (m_seq_len mds)) (supplied w vpath start)) \<longrightarrow>
      (\<exists>cap. snd (multi_getitem w mds idx) = Some cap \<and> \<not> cap_opened cap))
   \<and> (py_index (s_samples sds) idx' = Inr (vpath', start', label')
      \<and> py_unpack4 (s_roi sds) = Inr roi4'
      \<and> list_all (crop_ok roi4') (take (nat (s_seq_len sds)) (supplied w vpath' start')) \<longrightarrow>
      (\<exists>cap. snd (single_getitem w sds idx') = Some cap \<and> \<not> cap_opened cap))"
proof -
  have a: "\<exists>cap. snd (multi_getitem w mds idx) = Some cap \<and> \<not> cap_opened cap"
    if "fst (multi_getitem w mds idx) = Inr v"
  proof -
    from that obtain vp st lb r r4 where
      i: "py_index (m_samples mds) idx = Inr (vp, st, lb, r)" and u: "py_unpack4 (JArr r) = Inr r4"
      by (auto simp: multi_getitem_def split: sum.splits)
    from that show ?thesis
      unfolding multi_getitem_unfold [OF i u] by (rule read_and_stack_returns)
  qed
  have b: "\<exists>cap. snd (single_getitem w sds idx') = Some cap \<and> \<not> cap_opened cap"
    if "fst (single_getitem w sds idx') = Inr v'"
  proof -
    from that obtain vp st lb r4 where
      i: "py_index (s_samples sds) idx' = Inr (vp, st, lb)" and u: "py_unpack4 (s_roi sds) = Inr r4"
      by (auto simp: single_getitem_def Let_def split: sum.splits)
    from that show ?thesis
      unfolding single_getitem_unfold [OF i u] by (rule read_and_stack_returns)
  qed
  have c: "\<exists>cap. snd (multi_getitem w mds idx) = Some cap \<and> \<not> cap_opened cap"
    if "py_index (m_samples mds) idx = Inr (vpath, start, label, roi)"
      "py_unpack4 (JArr roi) = Inr roi4"
      "list_all (crop_ok roi4) (take (nat (m_seq_len mds)) (supplied w vpath start))"
    unfolding multi_getitem_unfold [OF that(1,2)]
    by (rule read_and_stack_released) (simp add: readable_set_pos that(3))
  have d: "\<exists>cap. snd (single_getitem w sds idx') = Some cap \<and> \<not> cap_opened cap"
    if "py_index (s_samples sds) idx' = Inr (vpath', start', label')"
      "py_unpack4 (s_roi sds) = Inr roi4'"
      "list_all (crop_ok roi4') (take (nat (s_seq_len sds)) (supplied w vpath' start'))"
    unfolding single_getitem_unfold [OF that(1,2)]
    by (rule read_and_stack_released) (simp add: readable_set_pos that(3))
  from a b c d show ?thesis by blast
qed

theorem handle_released_witness:
  "(\<exists>cap. snd (multi_getitem example_world example_multi 0) = Some cap \<and> \<not> cap_opened cap)
   \<and> (\<exists>cap. snd (single_getitem example_world
                (example_single (JArr [JInt 0, JInt 0, JInt 2, JInt 2])) 1) = Some cap
          \<and> \<not> cap_opened cap)
   \<and> (\<exists>cap. snd (multi_getitem example_world example_multi 5) = Some cap \<and> \<not> cap_opened cap)
   \<and> (\<exists>cap. snd (single_getitem example_world
                (example_single (JArr [JInt 0, JInt 0, JInt 2, JInt 2])) 4) = Some cap
          \<and> \<not> cap_opened cap)"
proof -
  let ?small = "JArr [JInt 0, JInt 0, JInt 2, JInt 2]"
  let ?r4 = "(JInt 0, JInt 0, JInt 2, JInt 2)"
  let ?d4 = "(JInt 1150, JInt 300, JInt 1600, JInt 700)"
  have u: "py_unpack4 (s_roi (example_single ?small)) = Inr ?r4"
    by (simp add: example_single_def ex_unpack)
  have ud: "py_unpack4 (JArr [JInt 1150, JInt 300, JInt 1600, JInt 700]) = Inr ?d4"
    by (rule ex_unpack(1))
  have len: "m_seq_len example_multi = 8" "s_seq_len (example_single ?small) = 8"
    "m_transform example_multi = None" "s_transform (example_single ?small) = None"
    by (simp_all add: example_multi_def example_single_def)
  have "fst (multi_getitem example_world example_multi 0)
      = apply_transform (m_transform example_multi)
          (map (\<lambda>img. projr (process_frame example_world ?r4 img))
             (supplied example_world ''/data/video/a.mp4'' 0)) 1"
    unfolding multi_getitem_unfold [OF ex_index(1) ex_unpack(1)]
    using ex_resize_ok by (rule short_read_core) (simp_all add: ex_supplied ex_crop len)
  then have r1: "fst (multi_getitem example_world example_multi 0)
      = Inr (map (\<lambda>img. projr (process_frame example_world ?r4 img))
             (supplied example_world ''/data/video/a.mp4'' 0), 1)"
    by (simp add: len apply_transform_def)
  have "fst (single_getitem example_world (example_single ?small) 1)
      = apply_transform (s_transform (example_single ?small))
          (map (\<lambda>img. projr (process_frame example_world ?r4 img))
             (supplied example_world ''/data/video/a.mp4'' 1)) 1"
    unfolding single_getitem_unfold [OF ex_index(4) u]
    using ex_resize_ok by (rule short_read_core) (simp_all add: ex_supplied ex_crop len)
  then have r2: "fst (single_getitem example_world (example_single ?small) 1)
      = Inr (map (\<lambda>img. projr (process_frame example_world ?r4 img))
             (supplied example_world ''/data/video/a.mp4'' 1), 1)"
    by (simp add: len apply_transform_def)
  have z3: "list_all (crop_ok ?d4)
      (take (nat (m_seq_len example_multi)) (supplied example_world ''/data/video/b.mp4'' 0))"
    by (simp add: ex_supplied)
  have z4: "list_all (crop_ok ?r4)
      (take (nat (s_seq_len (example_single ?small))) (supplied example_world ''/data/video/a.mp4'' 4))"
    by (simp add: ex_supplied)
  note t1 = handle_released [of example_world example_multi 0 _ "example_single ?small" 1 _
      "''/data/video/a.mp4''" 0 1 "[JInt 0, JInt 0, JInt 2, JInt 2]" ?r4
      "''/data/video/a.mp4''" 1 1 ?r4]
  note t2 = handle_released [of example_world example_multi 5 _ "example_single ?small" 4 _
      "''/data/video/b.mp4''" 0 0 "[JInt 1150, JInt 300, JInt 1600, JInt 700]" ?d4
      "''/data/video/a.mp4''" 4 1 ?r4]
  from t1 r1 have a: "\<exists>cap. snd (multi_getitem example_world example_multi 0) = Some cap
      \<and> \<not> cap_opened cap" by blast
  from t1 r2 have b: "\<exists>cap. snd (single_getitem example_world (example_single ?small) 1) = Some cap
      \<and> \<not> cap_opened cap" by blast
  from t2 ex_index(2) ud z3 have c: "\<exists>cap. snd (multi_getitem example_world example_multi 5) = Some cap
      \<and> \<not> cap_opened cap" by blast
  from t2 ex_index(5) u z4 have d: "\<exists>cap. snd (single_getitem example_world (example_single ?small) 4) = Some cap
      \<and> \<not> cap_opened cap" by blast
  from a b c d show ?thesis by blast
qed

text \<open>
  The claim as stated fails on the path where the processing of a frame raises: the frames
  of \<^verbatim>\<open>a.mp4\<close> are smaller than the ROI \<open>(1150, 300, 1600, 700)\<close>, the crop is empty, the resize
  raises, and the access ends with the handle still open.
\<close>

theorem handle_left_open_counterexample:
  "single_init example_world ''/data/label/a.json'' 8 8 default_roi_value None
     = Inr (example_single default_roi_value)
   \<and> single_getitem example_world (example_single default_roi_value) 0
       = (Inl CvError,
          Some \<lparr>cap_frames = [small_frame, small_frame, small_frame], cap_pos = 1,
                cap_opened = True\<rparr>)"
proof -
  let ?d4 = "(JInt 1150, JInt 300, JInt 1600, JInt 700)"
  have u: "py_unpack4 (s_roi (example_single default_roi_value)) = Inr ?d4"
    by (simp add: example_single_def ex_unpack)
  have cap: "cap_set_pos (VideoCapture example_world ''/data/video/a.mp4'') 0
      = \<lparr>cap_frames = [small_frame, small_frame, small_frame], cap_pos = 0, cap_opened = True\<rparr>"
    by (simp add: cap_set_pos_def VideoCapture_def ex_videos eval_nat_numeral)
  have pf: "process_frame example_world ?d4 small_frame = Inl CvError"
    by (simp add: process_frame_def crop_roi_def py_slice_bound_def py_slice_def clip_bound_def
        small_frame_def resize256_def image_empty_def)
  have rf: "read_frames example_world ?d4 (Suc n)
      \<lparr>cap_frames = [small_frame, small_frame, small_frame], cap_pos = 0, cap_opened = True\<rparr> []
      = (Inl CvError,
         \<lparr>cap_frames = [small_frame, small_frame, small_frame], cap_pos = 1, cap_opened = True\<rparr>)"
    for n
    by (simp add: cap_read_def pf)
  have n: "nat (s_seq_len (example_single default_roi_value)) = Suc 7"
    by (simp add: example_single_def)
  have "single_getitem example_world (example_single default_roi_value) 0
       = (Inl CvError,
          Some \<lparr>cap_frames = [small_frame, small_frame, small_frame], cap_pos = 1,
                cap_opened = True\<rparr>)"
    unfolding single_getitem_unfold [OF ex_index(3) u] cap read_and_stack_def n rf by simp
  with ex_datasets(2) show ?thesis by blast
qed

end
